(* ===== verification/Prelude.thy ===== *)
theory Prelude
  imports Main
begin

text \<open>
  Shared vocabulary of the development: the error values that model the
  exceptions thrown by the front-end (\<open>throw new Error(...)\<close>), the external
  effects it triggers (wallet signatures, HTTP requests, contract calls), the
  JavaScript string operations the sources use (\<open>toLowerCase\<close>,
  \<open>toUpperCase\<close>, truthiness, \<open>||\<close> on numbers) and the generic lemmas on
  lists, options and sums that the component theories share.
\<close>

named_theorems js_simps "evaluation rules of the modelled JavaScript primitives"

type_synonym js_address = string
type_synonym js_symbol = string

text \<open>
  The module constants of \<open>common/constants.ts\<close> and \<open>common/erc777Abi\<close>
  that the modelled code reads; the development is parametric in them.
\<close>

record app_constants =
  NETWORK_ID :: nat
  UI_DECIMALS_DISPLAYED_DEFAULT_PRECISION :: int
  BITPIE_BASE_URL :: string
  WITHDRAW_ADDRESS :: js_address
  ERC_777_ADDRESS :: js_address

section \<open>Errors and external effects\<close>

text \<open>
  One constructor per \<open>throw\<close> of the sources, carrying the argument the
  message is built from; \<open>error_message\<close> gives the exact message text.
\<close>

datatype error =
    TokenSymbolNotFound string
  | TokenAddressNotFound string
  | WethMetaDataNotFound
  | AssetDataDecodeError string
  | HttpError string
  | WalletError string
  | TypeError string

fun error_message :: "error \<Rightarrow> string" where
  "error_message (TokenSymbolNotFound s) = ''Token with symbol '' @ s @ '' not found in known tokens''"
| "error_message (TokenAddressNotFound a) = ''Token with address '' @ a @ '' not found in known tokens''"
| "error_message WethMetaDataNotFound = ''WETH Token MetaData not found''"
| "error_message (AssetDataDecodeError d) = d"
| "error_message (HttpError e) = e"
| "error_message (WalletError e) = e"
| "error_message (TypeError e) = e"

text \<open>
  Calls across the boundary of the program (the injected \<open>window.web3\<close> object
  and \<open>fetch\<close>), recorded in the order the code issues them.
\<close>

datatype effect =
    PersonalSign string js_address
  | HttpGet string
  | HttpPost string "(string \<times> string) list"
  | ContractSend js_address js_address int js_address
  | LogError error

section \<open>JavaScript strings\<close>

text \<open>
  \<open>String.prototype.toLowerCase\<close> and \<open>toUpperCase\<close> on the ASCII range: the
  letters A-Z and a-z differ in bit 5 of their code; every other character
  is kept. Characters are bytes here (HOL's \<open>char\<close>), which is what the
  token symbols, hex addresses and coin codes of the configuration are.
\<close>

definition is_upper_char :: "char \<Rightarrow> bool" where
  "is_upper_char c \<longleftrightarrow> (65::nat) \<le> of_char c \<and> of_char c \<le> (90::nat)"

definition is_lower_char :: "char \<Rightarrow> bool" where
  "is_lower_char c \<longleftrightarrow> (97::nat) \<le> of_char c \<and> of_char c \<le> (122::nat)"

fun set_case_bit :: "bool \<Rightarrow> char \<Rightarrow> char" where
  "set_case_bit b (Char b0 b1 b2 b3 b4 b5 b6 b7) = Char b0 b1 b2 b3 b4 b b6 b7"

definition lower_char :: "char \<Rightarrow> char" where
  "lower_char c = (if is_upper_char c then set_case_bit True c else c)"

definition upper_char :: "char \<Rightarrow> char" where
  "upper_char c = (if is_lower_char c then set_case_bit False c else c)"

definition toLowerCase :: "string \<Rightarrow> string" where
  "toLowerCase s = map lower_char s"

definition toUpperCase :: "string \<Rightarrow> string" where
  "toUpperCase s = map upper_char s"

text \<open>Truthiness of a property that may be \<open>undefined\<close>: \<open>''\<close> is falsy.\<close>

definition js_truthy_str :: "string option \<Rightarrow> bool" where
  "js_truthy_str v = (case v of None \<Rightarrow> False | Some s \<Rightarrow> s \<noteq> [])"

text \<open>
  \<open>x || d\<close> on an optional number (a TypeScript \<open>number\<close>, modelled as an
  integer; negative values are kept): \<open>undefined\<close> and \<open>0\<close> are falsy.
\<close>

definition js_or_num :: "int option \<Rightarrow> int \<Rightarrow> int" where
  "js_or_num v d = (case v of None \<Rightarrow> d | Some n \<Rightarrow> if n = 0 then d else n)"

declare toLowerCase_def [js_simps] toUpperCase_def [js_simps]
  lower_char_def [js_simps] upper_char_def [js_simps]
  is_upper_char_def [js_simps] is_lower_char_def [js_simps]
  js_truthy_str_def [js_simps] js_or_num_def [js_simps]

section \<open>JavaScript arrays with holes\<close>

text \<open>
  An array whose entries may be holes: \<open>None\<close> is a hole, read as
  \<open>undefined\<close>. The assignment \<open>xs[i] = v\<close> past the end extends the array
  with holes up to index \<open>i\<close>.
\<close>

definition js_set :: "'a option list \<Rightarrow> nat \<Rightarrow> 'a option \<Rightarrow> 'a option list" where
  "js_set xs i v = (if i < length xs then xs[i := v] else xs @ replicate (i - length xs) None @ [v])"

section \<open>Lemmas on the string primitives\<close>

lemma lower_upper_char [simp]: "lower_char (upper_char c) = lower_char c"
  by (cases c) (simp add: lower_char_def upper_char_def is_lower_char_def is_upper_char_def)

lemma upper_lower_char [simp]: "upper_char (lower_char c) = upper_char c"
  by (cases c) (simp add: lower_char_def upper_char_def is_lower_char_def is_upper_char_def)

lemma lower_char_idem [simp]: "lower_char (lower_char c) = lower_char c"
  by (cases c) (simp add: lower_char_def is_upper_char_def)

lemma upper_char_idem [simp]: "upper_char (upper_char c) = upper_char c"
  by (cases c) (simp add: upper_char_def is_lower_char_def)

lemma toLowerCase_idem [simp]: "toLowerCase (toLowerCase s) = toLowerCase s"
  by (simp add: toLowerCase_def)

lemma toLowerCase_toUpperCase [simp]: "toLowerCase (toUpperCase s) = toLowerCase s"
  by (simp add: toLowerCase_def toUpperCase_def)

lemma toUpperCase_toLowerCase [simp]: "toUpperCase (toLowerCase s) = toUpperCase s"
  by (simp add: toLowerCase_def toUpperCase_def)

lemma toUpperCase_idem [simp]: "toUpperCase (toUpperCase s) = toUpperCase s"
  by (simp add: toUpperCase_def)

lemma length_toLowerCase [simp]: "length (toLowerCase s) = length s"
  by (simp add: toLowerCase_def)

lemma length_toUpperCase [simp]: "length (toUpperCase s) = length s"
  by (simp add: toUpperCase_def)

lemma toLowerCase_Nil [simp]: "toLowerCase [] = []" and toUpperCase_Nil [simp]: "toUpperCase [] = []"
  by (simp_all add: toLowerCase_def toUpperCase_def)

section \<open>Lemmas on \<open>find\<close> (JavaScript's \<open>Array.prototype.find\<close>)\<close>

lemma js_set_inside: "i < length xs \<Longrightarrow> js_set xs i v = xs[i := v]"
  by (simp add: js_set_def)

lemma js_set_end: "js_set xs (length xs) v = xs @ [v]"
  by (simp add: js_set_def)

lemma map_filter_id_Some [simp]: "List.map_filter id (map Some xs) = xs"
  by (induction xs) (simp_all add: List.map_filter_simps)

lemma find_SomeD: "find P xs = Some x \<Longrightarrow> x \<in> set xs \<and> P x"
  by (auto simp: find_Some_iff)

lemma find_key_distinct:
  assumes "distinct (map f xs)" and "x \<in> set xs"
  shows "find (\<lambda>y. f y = f x) xs = Some x"
  using assms by (induction xs) (auto simp: image_iff)

end
