(* ===== verification/TokenData.thy ===== *)
theory TokenData
  imports Prelude
begin

text \<open>
  Token configuration and its projection to tokens, after
  \<open>src/src/common/tokens_steady_data.ts\<close> (the \<open>TokenSteadyData\<close> interface)
  and \<open>src/src/util/token_steady_data.ts\<close> (the two projection functions).
  The \<open>Token\<close> type of \<open>util/types.ts\<close> and the trading-token twins of
  \<open>util/token_meta_data.ts\<close> are not under \<open>src/\<close>; they are modelled from the
  object literals the sources build and from the specification (the trading
  metadata has the same fields as the steady data).
\<close>

section \<open>Data\<close>

text \<open>
  A \<open>Token\<close>. Its \<open>address\<close> is read from a per-network map and can be
  \<open>undefined\<close> (\<open>None\<close>) for the WETH token, which is built without the
  network filter.
\<close>

record token =
  address :: "js_address option"
  symbol :: js_symbol
  decimals :: nat
  name :: string
  primaryColor :: string
  icon :: "string option"
  displayDecimals :: int

text \<open>\<open>TokenSteadyData\<close>: \<open>addresses\<close> is an object keyed by network id.\<close>

record tokenSteadyData =
  d_addresses :: "nat \<rightharpoonup> js_address"
  d_symbol :: js_symbol
  d_decimals :: nat
  d_name :: string
  d_primaryColor :: string
  d_icon :: "string option"
  d_displayDecimals :: "int option"

section \<open>Operations\<close>

text \<open>The object literal both projections build (lines 11--19 and 27--35).\<close>

definition token_of_data :: "app_constants \<Rightarrow> tokenSteadyData \<Rightarrow> token" where
  "token_of_data k d =
     \<lparr>address = d_addresses d (NETWORK_ID k), symbol = d_symbol d, decimals = d_decimals d,
      name = d_name d, primaryColor = d_primaryColor d, icon = d_icon d,
      displayDecimals = js_or_num (d_displayDecimals d) (UI_DECIMALS_DISPLAYED_DEFAULT_PRECISION k)\<rparr>"

definition getWethTokenFromTokensSteadyDataByNetworkId ::
    "app_constants \<Rightarrow> tokenSteadyData list \<Rightarrow> error + token" where
  "getWethTokenFromTokensSteadyDataByNetworkId k ds =
     (case find (\<lambda>t. d_symbol t = ''weth'') ds of
        None \<Rightarrow> Inl WethMetaDataNotFound
      | Some d \<Rightarrow> Inr (token_of_data k d))"

definition mapTokensSteadyDataToTokenByNetworkId ::
    "app_constants \<Rightarrow> tokenSteadyData list \<Rightarrow> token list" where
  "mapTokensSteadyDataToTokenByNetworkId k ds =
     map (token_of_data k) (filter (\<lambda>d. js_truthy_str (d_addresses d (NETWORK_ID k))) ds)"

text \<open>The trading-token projections of \<open>util/token_meta_data.ts\<close>.\<close>

definition getWethTokenFromTokensMetaDataByNetworkId ::
    "app_constants \<Rightarrow> tokenSteadyData list \<Rightarrow> error + token" where
  "getWethTokenFromTokensMetaDataByNetworkId k ds =
     (case find (\<lambda>t. d_symbol t = ''weth'') ds of
        None \<Rightarrow> Inl WethMetaDataNotFound
      | Some d \<Rightarrow> Inr (token_of_data k d))"

definition mapTokensMetaDataToTokenByNetworkId ::
    "app_constants \<Rightarrow> tokenSteadyData list \<Rightarrow> token list" where
  "mapTokensMetaDataToTokenByNetworkId k ds =
     map (token_of_data k) (filter (\<lambda>d. js_truthy_str (d_addresses d (NETWORK_ID k))) ds)"

section \<open>Sample configuration\<close>

text \<open>
  A configuration in the shape of \<open>Config.getConfig().steadyTokens\<close>, used by
  the witnesses of this and the later theories: network 42, two tokens with an
  address there (one configured with \<open>displayDecimals: 0\<close>), WETH, and a
  token without an address on network 42.
\<close>

definition sample_constants :: app_constants where
  "sample_constants =
     \<lparr>NETWORK_ID = 42, UI_DECIMALS_DISPLAYED_DEFAULT_PRECISION = 2,
      BITPIE_BASE_URL = ''https://bitpie.example/api'', WITHDRAW_ADDRESS = ''0x5a7e'',
      ERC_777_ADDRESS = ''0xe777''\<rparr>"

definition btc_data :: tokenSteadyData where
  "btc_data = \<lparr>d_addresses = [42 \<mapsto> ''0xB7C0''], d_symbol = ''btc'', d_decimals = 8,
     d_name = ''Bitcoin'', d_primaryColor = ''#f7931a'', d_icon = None, d_displayDecimals = Some 0\<rparr>"

definition usdt_data :: tokenSteadyData where
  "usdt_data = \<lparr>d_addresses = [42 \<mapsto> ''0x05D7''], d_symbol = ''usdt'', d_decimals = 6,
     d_name = ''Tether'', d_primaryColor = ''#26a17b'', d_icon = None, d_displayDecimals = None\<rparr>"

definition weth_data :: tokenSteadyData where
  "weth_data = \<lparr>d_addresses = [42 \<mapsto> ''0xD0A1''], d_symbol = ''weth'', d_decimals = 18,
     d_name = ''Wrapped Ether'', d_primaryColor = ''#3333ff'', d_icon = None, d_displayDecimals = Some 3\<rparr>"

definition eos_data :: tokenSteadyData where
  "eos_data = \<lparr>d_addresses = [1 \<mapsto> ''0xE05''], d_symbol = ''eos'', d_decimals = 4,
     d_name = ''EOS'', d_primaryColor = ''#000000'', d_icon = None, d_displayDecimals = Some 4\<rparr>"

definition sample_steady_data :: "tokenSteadyData list" where
  "sample_steady_data = [btc_data, usdt_data, weth_data, eos_data]"

lemmas sample_data_defs = sample_constants_def btc_data_def usdt_data_def weth_data_def
  eos_data_def sample_steady_data_def

section \<open>Properties\<close>

text \<open>A token is well-formed when it has a non-empty address on the network.\<close>

definition token_has_address :: "token \<Rightarrow> bool" where
  "token_has_address t \<longleftrightarrow> (case address t of None \<Rightarrow> False | Some a \<Rightarrow> a \<noteq> [])"

lemma token_of_data_fields [simp]:
  "address (token_of_data k d) = d_addresses d (NETWORK_ID k)"
  "symbol (token_of_data k d) = d_symbol d"
  "decimals (token_of_data k d) = d_decimals d"
  "primaryColor (token_of_data k d) = d_primaryColor d"
  by (simp_all add: token_of_data_def)

lemma token_of_data_displayDecimals [simp]:
  "displayDecimals (token_of_data k d) =
     js_or_num (d_displayDecimals d) (UI_DECIMALS_DISPLAYED_DEFAULT_PRECISION k)"
  by (simp add: token_of_data_def)

lemma set_mapTokensSteadyData:
  "t \<in> set (mapTokensSteadyDataToTokenByNetworkId k ds) \<longleftrightarrow>
     (\<exists>d \<in> set ds. js_truthy_str (d_addresses d (NETWORK_ID k)) \<and> t = token_of_data k d)"
  by (auto simp: mapTokensSteadyDataToTokenByNetworkId_def)

lemma set_mapTokensMetaData:
  "t \<in> set (mapTokensMetaDataToTokenByNetworkId k ds) \<longleftrightarrow>
     (\<exists>d \<in> set ds. js_truthy_str (d_addresses d (NETWORK_ID k)) \<and> t = token_of_data k d)"
  by (auto simp: mapTokensMetaDataToTokenByNetworkId_def)

lemma js_truthy_token_has_address [intro]:
  "js_truthy_str (d_addresses d (NETWORK_ID k)) \<Longrightarrow> token_has_address (token_of_data k d)"
  by (simp add: token_has_address_def js_truthy_str_def split: option.splits)

text \<open>
  Every token the steady projection produces has a non-empty address on the
  configured network: entries whose address there is missing or empty are dropped.
\<close>

theorem mapTokensSteadyData_has_address:
  assumes "t \<in> set (mapTokensSteadyDataToTokenByNetworkId k ds)"
  shows "token_has_address t"
  using assms by (auto simp: set_mapTokensSteadyData)

theorem mapTokensSteadyData_has_address_witness:
  "hd (mapTokensSteadyDataToTokenByNetworkId sample_constants sample_steady_data)
     \<in> set (mapTokensSteadyDataToTokenByNetworkId sample_constants sample_steady_data)
   \<and> token_has_address (hd (mapTokensSteadyDataToTokenByNetworkId sample_constants sample_steady_data))"
  using mapTokensSteadyData_has_address
    [of "hd (mapTokensSteadyDataToTokenByNetworkId sample_constants sample_steady_data)"
        sample_constants sample_steady_data]
  by (simp add: mapTokensSteadyDataToTokenByNetworkId_def sample_data_defs js_simps)

text \<open>
  (C10) No token the projection yields has display precision 0 when the
  default precision is not 0: \<open>displayDecimals || DEFAULT\<close> treats a
  configured 0 like a missing value and replaces it with the default, so a
  token configured with \<open>displayDecimals: 0\<close> is shown with the default
  precision; every other configured number, a negative one included, is kept.
\<close>

theorem token_displayDecimals_never_zero:
  assumes "UI_DECIMALS_DISPLAYED_DEFAULT_PRECISION k \<noteq> 0"
    and "t \<in> set (mapTokensSteadyDataToTokenByNetworkId k ds)"
  shows "displayDecimals t \<noteq> 0
         \<and> (\<exists>d \<in> set ds. t = token_of_data k d
              \<and> (d_displayDecimals d = Some 0 \<longrightarrow> displayDecimals t = UI_DECIMALS_DISPLAYED_DEFAULT_PRECISION k)
              \<and> (\<forall>n. d_displayDecimals d = Some n \<and> n \<noteq> 0 \<longrightarrow> displayDecimals t = n))"
proof -
  from assms(2) obtain d where d: "d \<in> set ds" and t: "t = token_of_data k d"
    by (auto simp: set_mapTokensSteadyData)
  with assms(1) show ?thesis by (auto simp: js_or_num_def split: option.splits)
qed

theorem token_displayDecimals_never_zero_witness:
  "UI_DECIMALS_DISPLAYED_DEFAULT_PRECISION sample_constants \<noteq> 0
   \<and> token_of_data sample_constants btc_data \<in> set (mapTokensSteadyDataToTokenByNetworkId sample_constants sample_steady_data)
   \<and> d_displayDecimals btc_data = Some 0
   \<and> displayDecimals (token_of_data sample_constants btc_data) = 2"
proof -
  have "UI_DECIMALS_DISPLAYED_DEFAULT_PRECISION sample_constants \<noteq> 0"
    and m: "token_of_data sample_constants btc_data \<in> set (mapTokensSteadyDataToTokenByNetworkId sample_constants sample_steady_data)"
    by (simp_all add: mapTokensSteadyDataToTokenByNetworkId_def sample_data_defs js_simps)
  with token_displayDecimals_never_zero [OF this(1) m] show ?thesis
    by (simp add: sample_data_defs js_simps)
qed

end
