(* ===== verification/KnownTokens.thy ===== *)
theory KnownTokens
  imports TokenData
begin

text \<open>
  The token registry of \<open>src/src/util/known_tokens.ts\<close>: the class
  \<open>KnownTokens\<close> (its three private fields as a record, its constructor and its
  lookup methods), the module functions \<open>isWeth\<close>, \<open>isZrx\<close>,
  \<open>isERC20AssetData\<close>, \<open>getColorBySymbol\<close>, and the two lazily created
  module singletons \<open>getKnownTokens\<close> and \<open>getKnownSteadyTokens\<close>, whose
  module variable is passed as explicit state. The asset-data decoder of
  \<open>@0x/order-utils\<close> is a library the code only calls: it is a parameter
  \<open>decode\<close> that either fails or yields the token address. Every exception
  a method can raise is a value of \<open>error\<close>, the \<open>TypeError\<close> of the
  \<open>find\<close> callback in \<open>getTokenByAddress\<close> included.
\<close>

section \<open>Data\<close>

record knownTokens =
  kt_tokens :: "token list"
  kt_steadyTokens :: "token list"
  kt_wethToken :: token

text \<open>The two fields of \<open>ExchangeFillEventArgs\<close> that \<open>isValidFillEvent\<close> reads.\<close>

record fillEventArgs =
  makerAssetData :: string
  takerAssetData :: string

type_synonym asset_decoder = "string \<Rightarrow> error + js_address"

text \<open>The module variable behind each singleton (\<open>undefined\<close> is \<open>None\<close>).\<close>

type_synonym registry_cache = "knownTokens option"

section \<open>Operations\<close>

definition isZrx :: "string \<Rightarrow> bool" where
  "isZrx t \<longleftrightarrow> t = ''zrx''"

definition isWeth :: "string \<Rightarrow> bool" where
  "isWeth t \<longleftrightarrow> t = ''weth''"

text \<open>The constructor: the steady flag chooses which list is filled.\<close>

definition new_KnownTokens :: "app_constants \<Rightarrow> tokenSteadyData list \<Rightarrow> bool \<Rightarrow> error + knownTokens" where
  "new_KnownTokens k ds isSteady =
     (if isSteady then
        (let steady = filter (\<lambda>t. \<not> isWeth (symbol t)) (mapTokensSteadyDataToTokenByNetworkId k ds)
         in case getWethTokenFromTokensSteadyDataByNetworkId k ds of
              Inl e \<Rightarrow> Inl e
            | Inr w \<Rightarrow> Inr \<lparr>kt_tokens = [], kt_steadyTokens = steady, kt_wethToken = w\<rparr>)
      else
        (let toks = filter (\<lambda>t. \<not> isWeth (symbol t)) (mapTokensMetaDataToTokenByNetworkId k ds)
         in case getWethTokenFromTokensMetaDataByNetworkId k ds of
              Inl e \<Rightarrow> Inl e
            | Inr w \<Rightarrow> Inr \<lparr>kt_tokens = toks, kt_steadyTokens = [], kt_wethToken = w\<rparr>))"

definition getWethToken :: "knownTokens \<Rightarrow> token" where
  "getWethToken kt = kt_wethToken kt"

definition getTokenBySymbol :: "knownTokens \<Rightarrow> string \<Rightarrow> error + token" where
  "getTokenBySymbol kt s =
     (let l = toLowerCase s in
      case find (\<lambda>t. symbol t = l) (kt_tokens kt) of
        None \<Rightarrow> (if l = ''weth'' then Inr (getWethToken kt) else Inl (TokenSymbolNotFound s))
      | Some t \<Rightarrow> Inr t)"

text \<open>
  The callback of \<open>this._tokens.find\<close> in \<open>getTokenByAddress\<close>: the tokens are
  tried in order, and reading \<open>t.address.toLowerCase()\<close> on a token without an
  address throws a \<open>TypeError\<close> before any later token is tried.
\<close>

fun find_by_address :: "string \<Rightarrow> token list \<Rightarrow> error + token option" where
  "find_by_address l [] = Inr None"
| "find_by_address l (t # ts) =
     (case address t of
        None \<Rightarrow> Inl (TypeError ''Cannot read property toLowerCase of undefined'')
      | Some ta \<Rightarrow> (if toLowerCase ta = l then Inr (Some t) else find_by_address l ts))"

definition getTokenByAddress :: "knownTokens \<Rightarrow> js_address \<Rightarrow> error + token" where
  "getTokenByAddress kt a =
     (let l = toLowerCase a in
      case find_by_address l (kt_tokens kt) of
        Inl e \<Rightarrow> Inl e
      | Inr (Some t) \<Rightarrow> Inr t
      | Inr None \<Rightarrow> (if address (kt_wethToken kt) = Some a then Inr (kt_wethToken kt)
                 else Inl (TokenAddressNotFound a)))"

definition getTokenByAssetData :: "asset_decoder \<Rightarrow> knownTokens \<Rightarrow> string \<Rightarrow> error + token" where
  "getTokenByAssetData decode kt ad =
     (case decode ad of Inl e \<Rightarrow> Inl e | Inr a \<Rightarrow> getTokenByAddress kt a)"

definition isKnownAddress :: "knownTokens \<Rightarrow> js_address \<Rightarrow> bool" where
  "isKnownAddress kt a = (case getTokenByAddress kt a of Inl _ \<Rightarrow> False | Inr _ \<Rightarrow> True)"

definition isERC20AssetData :: "asset_decoder \<Rightarrow> string \<Rightarrow> bool" where
  "isERC20AssetData decode ad = (case decode ad of Inl _ \<Rightarrow> False | Inr _ \<Rightarrow> True)"

definition isValidFillEvent :: "asset_decoder \<Rightarrow> knownTokens \<Rightarrow> fillEventArgs \<Rightarrow> bool" where
  "isValidFillEvent decode kt ev =
     (if \<not> isERC20AssetData decode (makerAssetData ev) \<or> \<not> isERC20AssetData decode (takerAssetData ev)
      then False
      else (case (decode (makerAssetData ev), decode (takerAssetData ev)) of
              (Inr m, Inr t) \<Rightarrow> isKnownAddress kt m \<and> isKnownAddress kt t
            | _ \<Rightarrow> False))"

definition getTokens :: "knownTokens \<Rightarrow> token list" where
  "getTokens kt = kt_tokens kt"

definition getSteadyTokens :: "knownTokens \<Rightarrow> token list" where
  "getSteadyTokens kt = kt_steadyTokens kt"

text \<open>\<open>this._steadyTokens[0]\<close>: \<open>undefined\<close> on an empty list.\<close>

definition getSteadyDefaultToken :: "knownTokens \<Rightarrow> token option" where
  "getSteadyDefaultToken kt = (case kt_steadyTokens kt of [] \<Rightarrow> None | t # _ \<Rightarrow> Some t)"

definition getKnownTokens ::
    "app_constants \<Rightarrow> tokenSteadyData list \<Rightarrow> registry_cache \<Rightarrow> error + (knownTokens \<times> registry_cache)" where
  "getKnownTokens k ds cache =
     (case cache of
        Some kt \<Rightarrow> Inr (kt, cache)
      | None \<Rightarrow> (case new_KnownTokens k ds False of Inl e \<Rightarrow> Inl e | Inr kt \<Rightarrow> Inr (kt, Some kt)))"

definition getKnownSteadyTokens ::
    "app_constants \<Rightarrow> tokenSteadyData list \<Rightarrow> registry_cache \<Rightarrow> error + (knownTokens \<times> registry_cache)" where
  "getKnownSteadyTokens k ds cache =
     (case cache of
        Some kt \<Rightarrow> Inr (kt, cache)
      | None \<Rightarrow> (case new_KnownTokens k ds True of Inl e \<Rightarrow> Inl e | Inr kt \<Rightarrow> Inr (kt, Some kt)))"

definition getColorBySymbol :: "tokenSteadyData list \<Rightarrow> string \<Rightarrow> error + string" where
  "getColorBySymbol meta s =
     (case find (\<lambda>t. d_symbol t = toLowerCase s) meta of
        None \<Rightarrow> Inl (TokenSymbolNotFound s)
      | Some t \<Rightarrow> Inr (d_primaryColor t))"

section \<open>Registry invariant and sample registries\<close>

text \<open>
  What the constructor guarantees: the listed tokens have an address on the
  network and are not WETH, the WETH token is WETH, and only one of the two
  lists is filled.
\<close>

definition kt_wf :: "knownTokens \<Rightarrow> bool" where
  "kt_wf kt \<longleftrightarrow>
     (\<forall>t \<in> set (kt_tokens kt) \<union> set (kt_steadyTokens kt). token_has_address t \<and> \<not> isWeth (symbol t))
     \<and> isWeth (symbol (kt_wethToken kt))
     \<and> (kt_tokens kt = [] \<or> kt_steadyTokens kt = [])"

definition btc_token :: token where
  "btc_token = token_of_data sample_constants btc_data"

definition usdt_token :: token where
  "usdt_token = token_of_data sample_constants usdt_data"

definition weth_token :: token where
  "weth_token = token_of_data sample_constants weth_data"

definition sample_steady_registry :: knownTokens where
  "sample_steady_registry =
     \<lparr>kt_tokens = [], kt_steadyTokens = [btc_token, usdt_token], kt_wethToken = weth_token\<rparr>"

definition sample_trading_registry :: knownTokens where
  "sample_trading_registry =
     \<lparr>kt_tokens = [btc_token, usdt_token], kt_steadyTokens = [], kt_wethToken = weth_token\<rparr>"

lemmas sample_token_defs = btc_token_def usdt_token_def weth_token_def token_of_data_def

section \<open>Lemmas\<close>

lemma getWethTokenFromTokensSteadyData_Inr:
  "getWethTokenFromTokensSteadyDataByNetworkId k ds = Inr w \<Longrightarrow> symbol w = ''weth''"
  by (auto simp: getWethTokenFromTokensSteadyDataByNetworkId_def split: option.splits dest!: find_SomeD)

lemma getWethTokenFromTokensMetaData_Inr:
  "getWethTokenFromTokensMetaDataByNetworkId k ds = Inr w \<Longrightarrow> symbol w = ''weth''"
  by (auto simp: getWethTokenFromTokensMetaDataByNetworkId_def split: option.splits dest!: find_SomeD)

lemma new_KnownTokens_steady_Inr:
  "new_KnownTokens k ds True = Inr kt \<Longrightarrow>
     kt_tokens kt = [] \<and>
     kt_steadyTokens kt = filter (\<lambda>t. \<not> isWeth (symbol t)) (mapTokensSteadyDataToTokenByNetworkId k ds) \<and>
     getWethTokenFromTokensSteadyDataByNetworkId k ds = Inr (kt_wethToken kt)"
  by (auto simp: new_KnownTokens_def Let_def split: sum.splits)

lemma new_KnownTokens_trading_Inr:
  "new_KnownTokens k ds False = Inr kt \<Longrightarrow>
     kt_steadyTokens kt = [] \<and>
     kt_tokens kt = filter (\<lambda>t. \<not> isWeth (symbol t)) (mapTokensMetaDataToTokenByNetworkId k ds) \<and>
     getWethTokenFromTokensMetaDataByNetworkId k ds = Inr (kt_wethToken kt)"
  by (auto simp: new_KnownTokens_def Let_def split: sum.splits)

lemma kt_wf_no_weth: "kt_wf kt \<Longrightarrow> find (\<lambda>t. symbol t = ''weth'') (kt_tokens kt) = None"
  by (auto simp: kt_wf_def isWeth_def find_None_iff)

lemma kt_wf_addressed: "kt_wf kt \<Longrightarrow> \<forall>t \<in> set (kt_tokens kt). address t \<noteq> None"
  unfolding kt_wf_def token_has_address_def by (fastforce split: option.splits)

text \<open>On tokens that all have an address the \<open>find\<close> callback never throws.\<close>

lemma find_by_address_addressed:
  "\<forall>t \<in> set ts. address t \<noteq> None \<Longrightarrow>
   find_by_address l ts = Inr (find (\<lambda>t. map_option toLowerCase (address t) = Some l) ts)"
  by (induction ts) auto

lemma find_by_address_SomeD:
  "find_by_address l ts = Inr (Some t) \<Longrightarrow> t \<in> set ts \<and> map_option toLowerCase (address t) = Some l"
  by (induction ts) (auto split: option.splits if_splits)

lemma find_by_address_Inl:
  "find_by_address l ts = Inl e \<Longrightarrow>
   e = TypeError ''Cannot read property toLowerCase of undefined'' \<and> (\<exists>t \<in> set ts. address t = None)"
  by (induction ts) (auto split: option.splits if_splits)

text \<open>
  On a registry whose listed tokens all have an address, \<open>getTokenByAddress\<close>
  is a case-insensitive search of the list followed by the exact WETH check.
\<close>

lemma getTokenByAddress_addressed:
  assumes "\<forall>t \<in> set (kt_tokens kt). address t \<noteq> None"
  shows "getTokenByAddress kt a =
           (case find (\<lambda>t. map_option toLowerCase (address t) = Some (toLowerCase a)) (kt_tokens kt) of
              Some t \<Rightarrow> Inr t
            | None \<Rightarrow> (if address (kt_wethToken kt) = Some a then Inr (kt_wethToken kt)
                       else Inl (TokenAddressNotFound a)))"
  by (simp add: getTokenByAddress_def find_by_address_addressed [OF assms] split: option.split)

text \<open>
  The error path of the \<open>find\<close> callback: a registry whose first listed token
  has no address throws a \<open>TypeError\<close> for every query, whatever the WETH token.
\<close>

lemma getTokenByAddress_unaddressed_head:
  "kt_tokens kt = t # ts \<Longrightarrow> address t = None \<Longrightarrow>
   getTokenByAddress kt a = Inl (TypeError ''Cannot read property toLowerCase of undefined'')"
  by (simp add: getTokenByAddress_def)

text \<open>
  What \<open>isKnownAddress\<close> accepts on a registry whose listed tokens all have
  an address: a listed address up to case, or the WETH address exactly.
\<close>

lemma isKnownAddress_addressed:
  assumes "\<forall>t \<in> set (kt_tokens kt). address t \<noteq> None"
  shows "isKnownAddress kt a \<longleftrightarrow>
           (\<exists>tok \<in> set (kt_tokens kt). map_option toLowerCase (address tok) = Some (toLowerCase a))
           \<or> address (kt_wethToken kt) = Some a"
  by (auto simp: isKnownAddress_def getTokenByAddress_addressed [OF assms] find_None_iff
      split: option.splits dest!: find_SomeD)

lemma sample_steady_registry_built:
  "new_KnownTokens sample_constants sample_steady_data True = Inr sample_steady_registry"
  by (simp add: new_KnownTokens_def sample_steady_registry_def getWethTokenFromTokensSteadyDataByNetworkId_def
      mapTokensSteadyDataToTokenByNetworkId_def isWeth_def sample_data_defs sample_token_defs js_simps)

lemma sample_trading_registry_built:
  "new_KnownTokens sample_constants sample_steady_data False = Inr sample_trading_registry"
  by (simp add: new_KnownTokens_def sample_trading_registry_def getWethTokenFromTokensMetaDataByNetworkId_def
      mapTokensMetaDataToTokenByNetworkId_def isWeth_def sample_data_defs sample_token_defs js_simps)

section \<open>Properties\<close>

text \<open>
  (C1) The constructor establishes the registry invariant: every listed token
  (trading or steady) has a non-empty address on the network and is not WETH,
  the cached WETH token has symbol \<open>weth\<close>, and at most one list is filled.
\<close>

theorem new_KnownTokens_wf:
  assumes "new_KnownTokens k ds isSteady = Inr kt"
  shows "kt_wf kt"
proof (cases isSteady)
  case True
  with assms show ?thesis
    by (auto simp: kt_wf_def isWeth_def set_mapTokensSteadyData
             dest!: new_KnownTokens_steady_Inr getWethTokenFromTokensSteadyData_Inr)
next
  case False
  with assms show ?thesis
    by (auto simp: kt_wf_def isWeth_def set_mapTokensMetaData
             dest!: new_KnownTokens_trading_Inr getWethTokenFromTokensMetaData_Inr)
qed

theorem new_KnownTokens_wf_witness:
  "new_KnownTokens sample_constants sample_steady_data True = Inr sample_steady_registry
   \<and> kt_wf sample_steady_registry"
  using new_KnownTokens_wf [OF sample_steady_registry_built] sample_steady_registry_built by simp

text \<open>
  (C2) \<open>getTokenBySymbol\<close> finds a listed token from any spelling of its symbol
  whose lower-case form is the stored symbol, when the symbols are distinct.
\<close>

theorem getTokenBySymbol_found:
  assumes "t \<in> set (kt_tokens kt)" and "distinct (map symbol (kt_tokens kt))"
    and "toLowerCase s = symbol t"
  shows "getTokenBySymbol kt s = Inr t"
proof -
  have "find (\<lambda>u. symbol u = symbol t) (kt_tokens kt) = Some t"
    using assms(2,1) by (rule find_key_distinct)
  then show ?thesis using assms(3) by (simp add: getTokenBySymbol_def)
qed

theorem getTokenBySymbol_found_witness:
  "btc_token \<in> set (kt_tokens sample_trading_registry)
   \<and> distinct (map symbol (kt_tokens sample_trading_registry))
   \<and> toLowerCase ''BTC'' = symbol btc_token
   \<and> getTokenBySymbol sample_trading_registry ''BTC'' = Inr btc_token"
  using getTokenBySymbol_found [of btc_token sample_trading_registry "''BTC''"]
  by (simp add: sample_trading_registry_def sample_token_defs sample_data_defs js_simps)

text \<open>
  (C3) On a well-formed registry any spelling of \<open>weth\<close> yields the cached WETH
  token, although WETH is filtered out of the token list.
\<close>

theorem getTokenBySymbol_weth:
  assumes "kt_wf kt" and "toLowerCase s = ''weth''"
  shows "getTokenBySymbol kt s = Inr (kt_wethToken kt)"
  using assms by (simp add: getTokenBySymbol_def getWethToken_def kt_wf_no_weth)

theorem getTokenBySymbol_weth_witness:
  "kt_wf sample_trading_registry \<and> toLowerCase ''WETH'' = ''weth''
   \<and> getTokenBySymbol sample_trading_registry ''WETH'' = Inr weth_token"
proof -
  have wf: "kt_wf sample_trading_registry"
    by (simp add: kt_wf_def sample_trading_registry_def sample_token_defs sample_data_defs
        token_has_address_def isWeth_def js_simps)
  have "toLowerCase ''WETH'' = ''weth''" by (simp add: js_simps)
  with wf getTokenBySymbol_weth [OF wf, of "''WETH''"] show ?thesis
    by (simp add: sample_trading_registry_def)
qed

text \<open>
  (C4) On a registry whose listed tokens all have an address (every registry
  the constructor builds), \<open>getTokenByAddress\<close> throws "Token with address
  ... not found" for an address that matches no listed token
  case-insensitively and is not literally the WETH address.
\<close>

theorem getTokenByAddress_not_found:
  assumes "\<forall>t \<in> set (kt_tokens kt). address t \<noteq> None"
    and "\<forall>t \<in> set (kt_tokens kt). map_option toLowerCase (address t) \<noteq> Some (toLowerCase a)"
    and "address (kt_wethToken kt) \<noteq> Some a"
  shows "getTokenByAddress kt a = Inl (TokenAddressNotFound a)"
proof -
  have "find (\<lambda>t. map_option toLowerCase (address t) = Some (toLowerCase a)) (kt_tokens kt) = None"
    using assms(2) by (simp add: find_None_iff)
  with assms(3) show ?thesis by (simp add: getTokenByAddress_addressed [OF assms(1)])
qed

theorem getTokenByAddress_not_found_witness:
  "address (kt_wethToken sample_trading_registry) \<noteq> Some ''0xdead''
   \<and> getTokenByAddress sample_trading_registry ''0xdead'' = Inl (TokenAddressNotFound ''0xdead'')"
  using getTokenByAddress_not_found [of sample_trading_registry "''0xdead''"]
  by (simp add: sample_trading_registry_def sample_token_defs sample_data_defs js_simps)

text \<open>
  (C5) The steady registry leaves \<open>_tokens\<close> empty, so \<open>getTokenBySymbol\<close> on
  it resolves no steady token at all: it yields WETH for \<open>weth\<close> and throws
  for every other symbol.
\<close>

theorem steady_getTokenBySymbol:
  assumes "new_KnownTokens k ds True = Inr kt"
  shows "getTokenBySymbol kt s =
           (if toLowerCase s = ''weth'' then Inr (kt_wethToken kt) else Inl (TokenSymbolNotFound s))"
  using new_KnownTokens_steady_Inr [OF assms] by (simp add: getTokenBySymbol_def getWethToken_def)

theorem steady_getTokenBySymbol_witness:
  "new_KnownTokens sample_constants sample_steady_data True = Inr sample_steady_registry
   \<and> btc_token \<in> set (getSteadyTokens sample_steady_registry)
   \<and> getTokenBySymbol sample_steady_registry ''btc'' = Inl (TokenSymbolNotFound ''btc'')"
  using steady_getTokenBySymbol [OF sample_steady_registry_built, of "''btc''"] sample_steady_registry_built
  by (simp add: getSteadyTokens_def sample_steady_registry_def js_simps)

text \<open>
  (C6) A token returned by \<open>getTokenByAddress\<close> is either a listed token whose
  address equals the query up to case, or the WETH token whose address equals
  the query exactly.
\<close>

theorem getTokenByAddress_sound:
  assumes "getTokenByAddress kt a = Inr t"
  shows "(t \<in> set (kt_tokens kt) \<and> map_option toLowerCase (address t) = Some (toLowerCase a))
         \<or> (t = kt_wethToken kt \<and> address t = Some a)"
  using assms by (auto simp: getTokenByAddress_def split: sum.splits option.splits if_splits
      dest!: find_by_address_SomeD)

theorem getTokenByAddress_sound_witness:
  "getTokenByAddress sample_trading_registry ''0xb7c0'' = Inr btc_token
   \<and> btc_token \<in> set (kt_tokens sample_trading_registry)
   \<and> address btc_token = Some ''0xB7C0''"
proof -
  have r: "getTokenByAddress sample_trading_registry ''0xb7c0'' = Inr btc_token"
    by (simp add: getTokenByAddress_def sample_trading_registry_def sample_token_defs sample_data_defs js_simps)
  from getTokenByAddress_sound [OF r] r show ?thesis
    by (simp add: sample_trading_registry_def sample_token_defs sample_data_defs)
qed

text \<open>
  (C7) On a registry the constructor builds, a fill event is valid exactly
  when both asset data decode and each decoded address is the address of a
  listed token up to case, or exactly the WETH address: a WETH leg written
  in another case makes the event invalid.
\<close>

theorem isValidFillEvent_iff:
  assumes "kt_wf kt"
  shows "isValidFillEvent decode kt ev \<longleftrightarrow>
           (\<exists>m t. decode (makerAssetData ev) = Inr m \<and> decode (takerAssetData ev) = Inr t
              \<and> (\<forall>a \<in> {m, t}.
                   (\<exists>tok \<in> set (kt_tokens kt). map_option toLowerCase (address tok) = Some (toLowerCase a))
                   \<or> address (kt_wethToken kt) = Some a))"
  using isKnownAddress_addressed [OF kt_wf_addressed [OF assms]]
  by (auto simp: isValidFillEvent_def isERC20AssetData_def split: sum.splits)

theorem isValidFillEvent_iff_witness:
  "kt_wf sample_trading_registry
   \<and> isValidFillEvent Inr sample_trading_registry \<lparr>makerAssetData = ''0xb7c0'', takerAssetData = ''0xD0A1''\<rparr>
   \<and> \<not> isValidFillEvent Inr sample_trading_registry \<lparr>makerAssetData = ''0xb7c0'', takerAssetData = ''0xd0a1''\<rparr>"
proof -
  have wf: "kt_wf sample_trading_registry"
    by (simp add: kt_wf_def sample_trading_registry_def sample_token_defs sample_data_defs
        token_has_address_def isWeth_def js_simps)
  show ?thesis
    using isValidFillEvent_iff [OF wf, of Inr "\<lparr>makerAssetData = ''0xb7c0'', takerAssetData = ''0xD0A1''\<rparr>"]
      isValidFillEvent_iff [OF wf, of Inr "\<lparr>makerAssetData = ''0xb7c0'', takerAssetData = ''0xd0a1''\<rparr>"] wf
    by (simp add: sample_trading_registry_def sample_token_defs sample_data_defs js_simps)
qed

text \<open>
  (C8) After the first successful call, \<open>getKnownSteadyTokens\<close> returns the
  cached registry whatever configuration later calls pass: the argument is
  ignored once the module variable is set.
\<close>

theorem getKnownSteadyTokens_cached:
  assumes "getKnownSteadyTokens k ds cache = Inr (kt, cache')"
  shows "cache' = Some kt \<and> getKnownSteadyTokens k' ds' cache' = Inr (kt, cache')"
  using assms by (auto simp: getKnownSteadyTokens_def split: option.splits sum.splits)

theorem getKnownSteadyTokens_cached_witness:
  "getKnownSteadyTokens sample_constants sample_steady_data None
     = Inr (sample_steady_registry, Some sample_steady_registry)
   \<and> getKnownSteadyTokens sample_constants [] (Some sample_steady_registry)
     = Inr (sample_steady_registry, Some sample_steady_registry)"
proof -
  have r: "getKnownSteadyTokens sample_constants sample_steady_data None
             = Inr (sample_steady_registry, Some sample_steady_registry)"
    by (simp add: getKnownSteadyTokens_def sample_steady_registry_built)
  from getKnownSteadyTokens_cached [OF r, of sample_constants "[]"] r show ?thesis by simp
qed

text \<open>
  (C9) The constructor throws exactly when the configuration has no entry with
  symbol \<open>weth\<close>, and then with "WETH Token MetaData not found".
\<close>

theorem new_KnownTokens_error:
  "new_KnownTokens k ds isSteady = Inl e \<longleftrightarrow>
     e = WethMetaDataNotFound \<and> (\<forall>d \<in> set ds. d_symbol d \<noteq> ''weth'')"
proof (cases "find (\<lambda>t. d_symbol t = ''weth'') ds")
  case None
  then have "\<forall>d \<in> set ds. d_symbol d \<noteq> ''weth''" by (simp add: find_None_iff)
  with None show ?thesis
    by (auto simp: new_KnownTokens_def Let_def getWethTokenFromTokensSteadyDataByNetworkId_def
          getWethTokenFromTokensMetaDataByNetworkId_def)
next
  case (Some d)
  then have "d \<in> set ds \<and> d_symbol d = ''weth''" by (rule find_SomeD)
  with Some show ?thesis
    by (auto simp: new_KnownTokens_def Let_def getWethTokenFromTokensSteadyDataByNetworkId_def
          getWethTokenFromTokensMetaDataByNetworkId_def)
qed

theorem new_KnownTokens_error_witness:
  "new_KnownTokens sample_constants [btc_data, eos_data] True = Inl WethMetaDataNotFound"
  using new_KnownTokens_error [of sample_constants "[btc_data, eos_data]" True WethMetaDataNotFound]
  by (simp add: sample_data_defs)

end
