(* ===== verification/SteadyStore.thy ===== *)
theory SteadyStore
  imports KnownTokens
begin

text \<open>
  The \<open>steady\<close> slice of the Redux store: the action creators and thunks of
  \<open>src/src/store/steady/actions.ts\<close> and the reducer of
  \<open>src/src/store/steady/reducers.ts\<close>. A thunk is modelled by what one run of it
  does: the actions it dispatches, the external calls it makes (in order) and
  its outcome, \<open>Inl\<close> when the returned promise rejects. The answers of the
  wallet and of the HTTP server are parameters of a run.
\<close>

section \<open>Data\<close>

text \<open>\<open>Address\<close> of \<open>util/types.ts\<close>: a deposit address for a coin.\<close>

record addressEntry =
  coinCode :: string
  coinAddress :: js_address

text \<open>\<open>SteadyState\<close>: the selected token (\<open>undefined\<close> is \<open>None\<close>) and the resolved addresses (\<open>null\<close> is \<open>None\<close>).\<close>

record steadyState =
  currentToken :: "token option"
  addresses :: "addressEntry list option"

text \<open>The store's \<open>RootAction\<close>, restricted to the two steady actions; every other action of the store is \<open>OtherAction\<close>.\<close>

datatype rootAction =
    SetCurrentToken token
  | SetAddresses "addressEntry list"
  | OtherAction string

record 'a thunkRun =
  tr_actions :: "rootAction list"
  tr_effects :: "effect list"
  tr_result :: "error + 'a"

section \<open>Actions and reducer\<close>

definition setCurrentToken :: "token \<Rightarrow> rootAction" where
  "setCurrentToken t = SetCurrentToken t"

definition setAddresses :: "addressEntry list \<Rightarrow> rootAction" where
  "setAddresses as = SetAddresses as"

text \<open>\<open>initialSteadyState\<close>, built from the steady registry when the module loads.\<close>

definition initialSteadyState :: "knownTokens \<Rightarrow> steadyState" where
  "initialSteadyState kt = \<lparr>currentToken = getSteadyDefaultToken kt, addresses = None\<rparr>"

text \<open>The reducer; Redux passes \<open>undefined\<close> (\<open>None\<close>) on its first call, which selects the initial state.\<close>

definition steady :: "steadyState \<Rightarrow> steadyState option \<Rightarrow> rootAction \<Rightarrow> steadyState" where
  "steady init st act =
     (let s = (case st of None \<Rightarrow> init | Some s \<Rightarrow> s) in
      case act of
        SetCurrentToken t \<Rightarrow> s\<lparr>currentToken := Some t\<rparr>
      | SetAddresses as \<Rightarrow> s\<lparr>addresses := Some as\<rparr>
      | OtherAction _ \<Rightarrow> s)"

text \<open>Dispatching a sequence of actions, in order, to a store that already holds a state.\<close>

fun dispatch_all :: "steadyState \<Rightarrow> steadyState \<Rightarrow> rootAction list \<Rightarrow> steadyState" where
  "dispatch_all init s [] = s"
| "dispatch_all init s (a # as) = dispatch_all init (steady init (Some s) a) as"

section \<open>Thunks\<close>

definition fetchTokens :: "knownTokens \<Rightarrow> token list thunkRun" where
  "fetchTokens kt = \<lparr>tr_actions = [], tr_effects = [], tr_result = Inr (getSteadyTokens kt)\<rparr>"

definition changeCurrentToken :: "token \<Rightarrow> unit thunkRun" where
  "changeCurrentToken t = \<lparr>tr_actions = [setCurrentToken t], tr_effects = [], tr_result = Inr ()\<rparr>"

definition changeAddresses :: "addressEntry list \<Rightarrow> unit thunkRun" where
  "changeAddresses as = \<lparr>tr_actions = [setAddresses as], tr_effects = [], tr_result = Inr ()\<rparr>"

text \<open>
  What the call \<open>web3.personal.sign(message, account)\<close> of \<open>signMessage\<close>, made
  without a callback, does in the page: \<open>window.web3\<close> may be absent (reading
  \<open>personal\<close> of \<open>undefined\<close> throws a \<open>TypeError\<close>), the provider may refuse a
  synchronous call and throw, or the call returns a promise or a plain value,
  on which \<open>.then\<close> is not a function and throws a \<open>TypeError\<close>.
\<close>

datatype signReply =
    NoWeb3
  | SignThrows string
  | SignPromise
  | SignValue string

text \<open>
  \<open>signMessage\<close>: the message and the account are literals; the promise the
  wallet returns is only logged. Every exception of the \<open>try\<close> block is
  caught, an exception object is built and dropped, and the thunk resolves to
  \<open>undefined\<close> (\<open>None\<close>); it resolves to the empty string only when the call
  returned a promise. The wallet is asked for a signature whenever
  \<open>window.web3\<close> exists.
\<close>

definition signMessage :: "signReply \<Rightarrow> string \<Rightarrow> string option thunkRun" where
  "signMessage reply coinCode_arg =
     (case reply of
        NoWeb3 \<Rightarrow> \<lparr>tr_actions = [], tr_effects = [], tr_result = Inr None\<rparr>
      | SignPromise \<Rightarrow>
          \<lparr>tr_actions = [],
           tr_effects = [PersonalSign ''Get BTC Address'' ''0xdB25001A52E2F44E87F21dfb7FdA4656B84843a6''],
           tr_result = Inr (Some '''')\<rparr>
      | _ \<Rightarrow>
          \<lparr>tr_actions = [],
           tr_effects = [PersonalSign ''Get BTC Address'' ''0xdB25001A52E2F44E87F21dfb7FdA4656B84843a6''],
           tr_result = Inr None\<rparr>)"

definition deposit_address_url :: "app_constants \<Rightarrow> string \<Rightarrow> string \<Rightarrow> string" where
  "deposit_address_url k coin account =
     BITPIE_BASE_URL k @ ''/'' @ coin @ ''/recharge/address/'' @ account"

text \<open>
  \<open>fetchDepositAddress\<close>: a GET for the BTC address of the account. A rejected
  fetch is logged and re-thrown; a response's body is discarded (the
  \<open>then\<close> callback has no \<open>return\<close>) and the empty list is dispatched.
\<close>

definition fetchDepositAddress :: "app_constants \<Rightarrow> string \<Rightarrow> error + 'r \<Rightarrow> unit thunkRun" where
  "fetchDepositAddress k ethAccount response =
     (let req = HttpGet (deposit_address_url k ''BTC'' ethAccount) in
      case response of
        Inl e \<Rightarrow> \<lparr>tr_actions = [], tr_effects = [req, LogError e], tr_result = Inl e\<rparr>
      | Inr _ \<Rightarrow> \<lparr>tr_actions = [setAddresses []], tr_effects = [req], tr_result = Inr ()\<rparr>)"

text \<open>
  \<open>fetchTokensDepositAddress\<close>: a POST with the form field \<open>sign\<close>. It resolves
  to \<open>address.json\<close>, the unbound method, not to a parsed body: the result
  carries no data (\<open>unit\<close>). A rejected fetch is logged and re-thrown.
\<close>

definition fetchTokensDepositAddress ::
    "app_constants \<Rightarrow> string \<Rightarrow> string \<Rightarrow> string \<Rightarrow> error + 'r \<Rightarrow> unit thunkRun" where
  "fetchTokensDepositAddress k signString coin ethAccount response =
     (let req = HttpPost (deposit_address_url k coin ethAccount) [(''sign'', signString)] in
      case response of
        Inl e \<Rightarrow> \<lparr>tr_actions = [], tr_effects = [req, LogError e], tr_result = Inl e\<rparr>
      | Inr _ \<Rightarrow> \<lparr>tr_actions = [], tr_effects = [req], tr_result = Inr ()\<rparr>)"

section \<open>Abstract specification of the slice\<close>

text \<open>
  The slice promises two independent registers written only by their own
  action: \<open>currentToken\<close> holds the token of the last \<open>setCurrentToken\<close>,
  \<open>addresses\<close> the list of the last \<open>setAddresses\<close>, each unchanged when no
  such action was dispatched.
\<close>

primrec action_token :: "rootAction \<Rightarrow> token option" where
  "action_token (SetCurrentToken t) = Some t"
| "action_token (SetAddresses as) = None"
| "action_token (OtherAction n) = None"

primrec action_addresses :: "rootAction \<Rightarrow> addressEntry list option" where
  "action_addresses (SetCurrentToken t) = None"
| "action_addresses (SetAddresses as) = Some as"
| "action_addresses (OtherAction n) = None"

definition latest :: "'b option \<Rightarrow> 'b list \<Rightarrow> 'b option" where
  "latest d vs = (if vs = [] then d else Some (last vs))"

section \<open>Lemmas\<close>

lemma latest_Cons: "latest d (v # vs) = latest (Some v) vs"
  by (simp add: latest_def)

lemma dispatch_all_currentToken:
  "currentToken (dispatch_all init s as) = latest (currentToken s) (List.map_filter action_token as)"
proof (induction as arbitrary: s)
  case Nil
  then show ?case by (simp add: latest_def)
next
  case (Cons a as)
  then show ?case by (cases a) (simp_all add: steady_def latest_Cons)
qed

lemma dispatch_all_addresses:
  "addresses (dispatch_all init s as) = latest (addresses s) (List.map_filter action_addresses as)"
proof (induction as arbitrary: s)
  case Nil
  then show ?case by (simp add: latest_def)
next
  case (Cons a as)
  then show ?case by (cases a) (simp_all add: steady_def latest_Cons)
qed

lemma dispatch_all_append:
  "dispatch_all init s (as @ bs) = dispatch_all init (dispatch_all init s as) bs"
  by (induction as arbitrary: s) simp_all

lemma filter_steady_tokens:
  "filter (\<lambda>t. \<not> isWeth (symbol t)) (mapTokensSteadyDataToTokenByNetworkId k ds)
   = map (token_of_data k) (filter (\<lambda>d. js_truthy_str (d_addresses d (NETWORK_ID k)) \<and> \<not> isWeth (d_symbol d)) ds)"
  by (simp add: mapTokensSteadyDataToTokenByNetworkId_def filter_map comp_def)

section \<open>Properties\<close>

text \<open>
  (C11) The initial state of the slice selects the first configured steady token
  that has an address on the network and is not WETH, or nothing
  (\<open>undefined\<close>) when there is none, and holds no addresses (\<open>null\<close>).
\<close>

theorem initialSteadyState_default:
  assumes "new_KnownTokens k ds True = Inr kt"
  shows "currentToken (initialSteadyState kt) =
           (case filter (\<lambda>d. js_truthy_str (d_addresses d (NETWORK_ID k)) \<and> \<not> isWeth (d_symbol d)) ds of
              [] \<Rightarrow> None
            | d # _ \<Rightarrow> Some (token_of_data k d))
         \<and> addresses (initialSteadyState kt) = None"
  using new_KnownTokens_steady_Inr [OF assms]
  by (simp add: initialSteadyState_def getSteadyDefaultToken_def filter_steady_tokens split: list.splits)

theorem initialSteadyState_default_witness:
  "new_KnownTokens sample_constants sample_steady_data True = Inr sample_steady_registry
   \<and> currentToken (initialSteadyState sample_steady_registry) = Some btc_token
   \<and> addresses (initialSteadyState sample_steady_registry) = None"
  using initialSteadyState_default [OF sample_steady_registry_built] sample_steady_registry_built
  by (simp add: sample_data_defs btc_token_def isWeth_def js_simps)

text \<open>
  (C12) The reducer refines the two-register specification: after any sequence
  of dispatched actions, \<open>currentToken\<close> is the token of the last
  \<open>setCurrentToken\<close> and \<open>addresses\<close> the list of the last \<open>setAddresses\<close>,
  each unchanged when the sequence has no such action.
\<close>

theorem dispatch_all_refines_registers:
  "currentToken (dispatch_all init s as) = latest (currentToken s) (List.map_filter action_token as)
   \<and> addresses (dispatch_all init s as) = latest (addresses s) (List.map_filter action_addresses as)"
  by (simp add: dispatch_all_currentToken dispatch_all_addresses)

text \<open>
  (C13) \<open>fetchDepositAddress\<close> never stores a fetched address: when the request
  succeeds the addresses become the empty list whatever the server answered,
  when it fails they are unchanged; the selected token is unchanged either way.
\<close>

theorem fetchDepositAddress_store:
  "addresses (dispatch_all init s (tr_actions (fetchDepositAddress k acct response)))
     = (case response of Inl _ \<Rightarrow> addresses s | Inr _ \<Rightarrow> Some [])
   \<and> currentToken (dispatch_all init s (tr_actions (fetchDepositAddress k acct response))) = currentToken s"
  by (cases response) (simp_all add: fetchDepositAddress_def setAddresses_def steady_def)

text \<open>
  (C14) \<open>signMessage\<close> does not depend on the coin it is asked for (it always
  requests a signature of "Get BTC Address") and its promise never rejects:
  every failure of the wallet call is swallowed, and the thunk resolves to the
  empty string exactly when the wallet returned a promise, to \<open>undefined\<close>
  otherwise.
\<close>

theorem signMessage_constant:
  "signMessage w c = signMessage w c'
   \<and> tr_result (signMessage w c) = Inr (if w = SignPromise then Some [] else None)"
  by (cases w) (simp_all add: signMessage_def)

text \<open>
  (C15) Both address fetches log a rejected request and re-throw its error,
  dispatching nothing.
\<close>

theorem fetch_rejection_rethrown:
  "tr_result (fetchDepositAddress k acct (Inl e)) = Inl e
   \<and> LogError e \<in> set (tr_effects (fetchDepositAddress k acct (Inl e)))
   \<and> tr_actions (fetchDepositAddress k acct (Inl e)) = []
   \<and> tr_result (fetchTokensDepositAddress k sig coin acct (Inl e)) = Inl e
   \<and> LogError e \<in> set (tr_effects (fetchTokensDepositAddress k sig coin acct (Inl e)))
   \<and> tr_actions (fetchTokensDepositAddress k sig coin acct (Inl e)) = []"
  by (simp add: fetchDepositAddress_def fetchTokensDepositAddress_def)

end
