(* ===== verification/Dropdown.thy ===== *)
theory Dropdown
  imports Prelude
begin

text \<open>
  The generic \<open>Dropdown\<close> component of \<open>src/src/components/common/dropdown.tsx\<close>
  as a state machine. Its React state (\<open>isOpen\<close>) is joined by the two
  pieces of instance state its handlers read: whether \<open>_wrapperRef\<close> holds the
  DOM node and whether the document \<open>mousedown\<close> listener is registered. Each
  handler is one definition; \<open>dropdown_step\<close> dispatches a DOM event to the
  handler React would call. A physical click is a \<open>mousedown\<close> on the document
  followed by a \<open>click\<close> on its target. \<open>dropdown_render\<close> gives the body
  that \<open>render\<close> shows while open, as the rules of its styled wrapper.
\<close>

section \<open>Data\<close>

datatype dropdownPositions = Center | Left | Right

text \<open>
  \<open>Props\<close>: \<open>None\<close> is an absent (\<open>undefined\<close>) prop. The three
  \<open>steadyCustom\<close> flags and \<open>horizontalPosition\<close> are the
  \<open>DropdownWrapperBodyProps\<close> that \<open>Props\<close> extends.
\<close>

record dropdownProps =
  shouldCloseDropdownOnClickOutside :: "bool option"
  horizontalPosition :: "dropdownPositions option"
  steadyCustomTop :: "bool option"
  steadyCustomWidth :: "bool option"
  steadyCustomZIndex :: "bool option"

text \<open>\<open>DropdownWrapperBodyProps\<close>, the props of the styled body.\<close>

record dropdownWrapperBodyProps =
  bp_horizontalPosition :: "dropdownPositions option"
  bp_steadyCustomTop :: "bool option"
  bp_steadyCustomWidth :: "bool option"
  bp_steadyCustomZIndex :: "bool option"

record dropdownState =
  isOpen :: bool
  wrapperRef :: bool
  listening :: bool

text \<open>The events that reach the component; \<open>DocumentMouseDown inside\<close> says whether the target lies in the wrapper.\<close>

datatype domEvent =
    Mount
  | Unmount
  | HeaderClick
  | BodyClick
  | DocumentMouseDown bool
  | CloseDropdownCall

section \<open>Operations\<close>

definition dropdown_initial :: dropdownState where
  "dropdown_initial = \<lparr>isOpen = False, wrapperRef = False, listening = False\<rparr>"

text \<open>\<open>const { shouldCloseDropdownOnClickOutside = true } = this.props\<close>.\<close>

definition closeOnClickOutside :: "dropdownProps \<Rightarrow> bool" where
  "closeOnClickOutside p = (case shouldCloseDropdownOnClickOutside p of None \<Rightarrow> True | Some b \<Rightarrow> b)"

definition closeDropdown :: "dropdownState \<Rightarrow> dropdownState" where
  "closeDropdown s = s\<lparr>isOpen := False\<rparr>"

definition setWrapperRef :: "bool \<Rightarrow> dropdownState \<Rightarrow> dropdownState" where
  "setWrapperRef node s = s\<lparr>wrapperRef := node\<rparr>"

definition componentDidMount :: "dropdownState \<Rightarrow> dropdownState" where
  "componentDidMount s = s\<lparr>listening := True\<rparr>"

definition componentWillUnmount :: "dropdownState \<Rightarrow> dropdownState" where
  "componentWillUnmount s = s\<lparr>listening := False\<rparr>"

definition handleClickOutside :: "dropdownProps \<Rightarrow> dropdownState \<Rightarrow> bool \<Rightarrow> dropdownState" where
  "handleClickOutside p s inside =
     (if wrapperRef s \<and> \<not> inside then (if closeOnClickOutside p then closeDropdown s else s) else s)"

definition toggleDropdown :: "dropdownState \<Rightarrow> dropdownState" where
  "toggleDropdown s = s\<lparr>isOpen := \<not> isOpen s\<rparr>"

definition closeDropdownBody :: "dropdownProps \<Rightarrow> dropdownState \<Rightarrow> dropdownState" where
  "closeDropdownBody p s = (if closeOnClickOutside p then closeDropdown s else s)"

text \<open>
  Which handler an event reaches. On mount React sets the ref before
  \<open>componentDidMount\<close>, on unmount it calls \<open>componentWillUnmount\<close> before
  clearing the ref. The header is rendered only while mounted, the body only
  while open; the document listener runs only while registered.
\<close>

fun dropdown_step :: "dropdownProps \<Rightarrow> dropdownState \<Rightarrow> domEvent \<Rightarrow> dropdownState" where
  "dropdown_step p s Mount = componentDidMount (setWrapperRef True s)"
| "dropdown_step p s Unmount = setWrapperRef False (componentWillUnmount s)"
| "dropdown_step p s HeaderClick = (if wrapperRef s then toggleDropdown s else s)"
| "dropdown_step p s BodyClick = (if wrapperRef s \<and> isOpen s then closeDropdownBody p s else s)"
| "dropdown_step p s (DocumentMouseDown inside) =
     (if listening s then handleClickOutside p s inside else s)"
| "dropdown_step p s CloseDropdownCall = closeDropdown s"

text \<open>
  The rules of the styled \<open>DropdownWrapperBody\<close>: each interpolation adds its
  rule when its prop is truthy and nothing otherwise.
\<close>

definition DropdownWrapperBody_css :: "dropdownWrapperBodyProps \<Rightarrow> string list" where
  "DropdownWrapperBody_css bp =
     [''position: absolute;'',
      (if bp_steadyCustomTop bp = Some True then ''top: calc(100% - 25px);'' else ''top: calc(100% + 15px);'')]
     @ (if bp_steadyCustomWidth bp = Some True then [''width: 100%;''] else [])
     @ (if bp_steadyCustomZIndex bp = Some True then [''z-index: 13;''] else [])
     @ (if bp_horizontalPosition bp = Some Left then [''left: 0;''] else [])
     @ (if bp_horizontalPosition bp = Some Center then [''left: 50%; transform: translateX(-50%);''] else [])
     @ (if bp_horizontalPosition bp = Some Right then [''right: 0;''] else [])"

text \<open>The destructuring defaults of \<open>render\<close>: \<open>Left\<close> and \<open>false\<close>.\<close>

definition dropdown_bodyProps :: "dropdownProps \<Rightarrow> dropdownWrapperBodyProps" where
  "dropdown_bodyProps p =
     \<lparr>bp_horizontalPosition = Some (case horizontalPosition p of None \<Rightarrow> Left | Some h \<Rightarrow> h),
      bp_steadyCustomTop = Some (case steadyCustomTop p of None \<Rightarrow> False | Some b \<Rightarrow> b),
      bp_steadyCustomWidth = Some (case steadyCustomWidth p of None \<Rightarrow> False | Some b \<Rightarrow> b),
      bp_steadyCustomZIndex = Some (case steadyCustomZIndex p of None \<Rightarrow> False | Some b \<Rightarrow> b)\<rparr>"

text \<open>
  What \<open>render\<close> shows below the always-rendered header: the body, with its
  rules, exactly while \<open>isOpen\<close>.
\<close>

definition dropdown_render :: "dropdownProps \<Rightarrow> dropdownState \<Rightarrow> string list option" where
  "dropdown_render p s = (if isOpen s then Some (DropdownWrapperBody_css (dropdown_bodyProps p)) else None)"

text \<open>A rule of the body's horizontal placement.\<close>

definition horizontal_rule :: "string \<Rightarrow> bool" where
  "horizontal_rule r \<longleftrightarrow> r \<in> {''left: 0;'', ''left: 50%; transform: translateX(-50%);'', ''right: 0;''}"

definition dropdown_run :: "dropdownProps \<Rightarrow> dropdownState \<Rightarrow> domEvent list \<Rightarrow> dropdownState" where
  "dropdown_run p s evs = fold (\<lambda>e s. dropdown_step p s e) evs s"

text \<open>The user's gestures as the event sequences the browser delivers.\<close>

definition click_header :: "domEvent list" where
  "click_header = [DocumentMouseDown True, HeaderClick]"

definition click_body :: "domEvent list" where
  "click_body = [DocumentMouseDown True, BodyClick]"

definition click_outside :: "domEvent list" where
  "click_outside = [DocumentMouseDown False]"

section \<open>Reachable states\<close>

inductive dropdown_reachable :: "dropdownProps \<Rightarrow> dropdownState \<Rightarrow> bool" for p where
  start: "dropdown_reachable p dropdown_initial"
| step: "dropdown_reachable p s \<Longrightarrow> dropdown_reachable p (dropdown_step p s e)"

definition dropdown_inv :: "dropdownState \<Rightarrow> bool" where
  "dropdown_inv s \<longleftrightarrow> listening s = wrapperRef s"

definition closed_mounted :: dropdownState where
  "closed_mounted = \<lparr>isOpen = False, wrapperRef = True, listening = True\<rparr>"

definition open_mounted :: dropdownState where
  "open_mounted = \<lparr>isOpen = True, wrapperRef = True, listening = True\<rparr>"

definition default_dropdownProps :: dropdownProps where
  "default_dropdownProps = \<lparr>shouldCloseDropdownOnClickOutside = None, horizontalPosition = None,
     steadyCustomTop = None, steadyCustomWidth = None, steadyCustomZIndex = None\<rparr>"

definition keep_open_props :: dropdownProps where
  "keep_open_props = \<lparr>shouldCloseDropdownOnClickOutside = Some False, horizontalPosition = None,
     steadyCustomTop = None, steadyCustomWidth = None, steadyCustomZIndex = None\<rparr>"

section \<open>Properties\<close>

lemma open_mounted_reachable:
  "dropdown_run p dropdown_initial [Mount, HeaderClick] = open_mounted"
  by (simp add: dropdown_run_def dropdown_initial_def open_mounted_def componentDidMount_def
        setWrapperRef_def toggleDropdown_def)

lemma dropdown_step_inv: "dropdown_inv s \<Longrightarrow> dropdown_inv (dropdown_step p s e)"
  by (cases e)
     (simp_all add: dropdown_inv_def componentDidMount_def setWrapperRef_def componentWillUnmount_def
        toggleDropdown_def closeDropdownBody_def handleClickOutside_def closeDropdown_def)

lemma dropdown_reachable_run:
  "dropdown_reachable p s \<Longrightarrow> dropdown_reachable p (dropdown_run p s evs)"
  by (induction evs arbitrary: s) (simp_all add: dropdown_run_def dropdown_reachable.step)

lemma open_mounted_reachable_any: "dropdown_reachable p open_mounted"
  using dropdown_reachable_run [OF dropdown_reachable.start, of p "[Mount, HeaderClick]"]
  by (simp add: open_mounted_reachable)

lemma reachable_listening_iff_ref:
  assumes "dropdown_reachable p s"
  shows "listening s = wrapperRef s"
  using assms
proof (induction rule: dropdown_reachable.induct)
  case start
  show ?case by (simp add: dropdown_initial_def)
next
  case (step s e)
  then have "dropdown_inv s" by (simp add: dropdown_inv_def)
  then show ?case using dropdown_step_inv [of s p e] by (simp add: dropdown_inv_def)
qed

text \<open>
  (C16) In every reachable state the document listener is registered exactly
  while the wrapper ref holds the node: mount and unmount keep the two in step.
\<close>

theorem dropdown_reachable_inv:
  assumes "dropdown_reachable p s"
  shows "dropdown_inv s"
  using reachable_listening_iff_ref [OF assms] by (simp add: dropdown_inv_def)

theorem dropdown_reachable_inv_witness:
  "dropdown_reachable default_dropdownProps open_mounted \<and> dropdown_inv open_mounted"
proof -
  have r: "dropdown_reachable default_dropdownProps open_mounted"
    by (rule open_mounted_reachable_any)
  from r dropdown_reachable_inv [OF r] show ?thesis by simp
qed

text \<open>
  (C17) A click outside a mounted, reachable dropdown closes it exactly when
  \<open>shouldCloseDropdownOnClickOutside\<close> is not \<open>false\<close> (it defaults to
  \<open>true\<close>); with the flag \<open>false\<close> the dropdown stays as it was.
\<close>

theorem click_outside_closes:
  assumes "dropdown_reachable p s" and "wrapperRef s"
  shows "isOpen (dropdown_run p s click_outside) = (isOpen s \<and> \<not> closeOnClickOutside p)"
proof -
  have "listening s" using reachable_listening_iff_ref [OF assms(1)] assms(2) by simp
  with assms(2) show ?thesis
    by (simp add: dropdown_run_def click_outside_def handleClickOutside_def closeDropdown_def)
qed

theorem click_outside_closes_witness:
  "dropdown_reachable \<lparr>shouldCloseDropdownOnClickOutside = None, horizontalPosition = None,
     steadyCustomTop = None, steadyCustomWidth = None, steadyCustomZIndex = None\<rparr> open_mounted
   \<and> wrapperRef open_mounted
   \<and> \<not> isOpen (dropdown_run \<lparr>shouldCloseDropdownOnClickOutside = None, horizontalPosition = None,
     steadyCustomTop = None, steadyCustomWidth = None, steadyCustomZIndex = None\<rparr>
                 open_mounted click_outside)
   \<and> isOpen (dropdown_run \<lparr>shouldCloseDropdownOnClickOutside = Some False, horizontalPosition = None,
     steadyCustomTop = None, steadyCustomWidth = None, steadyCustomZIndex = None\<rparr>
                 open_mounted click_outside)"
proof -
  let ?p = "\<lparr>shouldCloseDropdownOnClickOutside = None, horizontalPosition = None,
     steadyCustomTop = None, steadyCustomWidth = None, steadyCustomZIndex = None\<rparr>"
  let ?q = "\<lparr>shouldCloseDropdownOnClickOutside = Some False, horizontalPosition = None,
     steadyCustomTop = None, steadyCustomWidth = None, steadyCustomZIndex = None\<rparr>"
  have r: "dropdown_reachable p open_mounted" for p by (rule open_mounted_reachable_any)
  have w: "wrapperRef open_mounted" by (simp add: open_mounted_def)
  show ?thesis
    using r w click_outside_closes [OF r w, of ?p] click_outside_closes [OF r w, of ?q]
    by (simp add: closeOnClickOutside_def open_mounted_def)
qed

text \<open>
  (C18) Only a click on the header opens the dropdown: no other event takes it
  from closed to open.
\<close>

theorem only_header_opens:
  assumes "\<not> isOpen s" and "isOpen (dropdown_step p s e)"
  shows "e = HeaderClick"
  using assms
  by (cases e)
     (auto simp: componentDidMount_def setWrapperRef_def componentWillUnmount_def toggleDropdown_def
        closeDropdownBody_def handleClickOutside_def closeDropdown_def split: if_splits)

theorem only_header_opens_witness:
  "\<not> isOpen closed_mounted \<and> isOpen (dropdown_step default_dropdownProps closed_mounted HeaderClick)"
proof -
  have "\<not> isOpen closed_mounted" "isOpen (dropdown_step default_dropdownProps closed_mounted HeaderClick)"
    by (simp_all add: closed_mounted_def toggleDropdown_def)
  with only_header_opens [OF this] show ?thesis by simp
qed

text \<open>
  (C19) A click on the header of a mounted, reachable dropdown toggles it: the
  preceding \<open>mousedown\<close> lies inside the wrapper and changes nothing, so the
  header also closes an open dropdown.
\<close>

theorem click_header_toggles:
  assumes "dropdown_reachable p s" and "wrapperRef s"
  shows "isOpen (dropdown_run p s click_header) = (\<not> isOpen s)"
proof -
  have "listening s" using reachable_listening_iff_ref [OF assms(1)] assms(2) by simp
  with assms(2) show ?thesis
    by (simp add: dropdown_run_def click_header_def handleClickOutside_def toggleDropdown_def)
qed

theorem click_header_toggles_witness:
  "dropdown_reachable default_dropdownProps open_mounted \<and> wrapperRef open_mounted
   \<and> \<not> isOpen (dropdown_run default_dropdownProps open_mounted click_header)"
  using click_header_toggles [of default_dropdownProps open_mounted, OF open_mounted_reachable_any]
    open_mounted_reachable_any
  by (simp add: open_mounted_def)

text \<open>
  (C20) A click inside the body obeys the same flag as a click outside: with
  \<open>shouldCloseDropdownOnClickOutside\<close> \<open>false\<close> a body click never closes the
  dropdown, otherwise it always does. There is no separate body-click option.
\<close>

theorem body_click_shares_flag:
  assumes "wrapperRef s"
  shows "isOpen (dropdown_run p s click_body) = (isOpen s \<and> \<not> closeOnClickOutside p)"
  using assms
  by (simp add: dropdown_run_def click_body_def handleClickOutside_def closeDropdownBody_def closeDropdown_def)

theorem body_click_shares_flag_witness:
  "wrapperRef open_mounted \<and> isOpen (dropdown_run keep_open_props open_mounted click_body)
   \<and> \<not> isOpen (dropdown_run default_dropdownProps open_mounted click_body)"
  using body_click_shares_flag [of open_mounted keep_open_props]
    body_click_shares_flag [of open_mounted default_dropdownProps]
  by (simp add: open_mounted_def keep_open_props_def default_dropdownProps_def closeOnClickOutside_def)

lemma DropdownWrapperBody_css_horizontal:
  "length (filter horizontal_rule (DropdownWrapperBody_css bp))
     = (case bp_horizontalPosition bp of None \<Rightarrow> 0 | Some _ \<Rightarrow> 1)"
proof (cases "bp_horizontalPosition bp")
  case None
  then show ?thesis by (simp add: DropdownWrapperBody_css_def horizontal_rule_def)
next
  case (Some h)
  then show ?thesis by (cases h) (simp_all add: DropdownWrapperBody_css_def horizontal_rule_def)
qed

lemma dropdown_render_shown: "dropdown_render p s \<noteq> None \<longleftrightarrow> isOpen s"
  by (simp add: dropdown_render_def)

lemma dropdown_render_one_horizontal:
  "dropdown_render p s = Some css \<Longrightarrow> length (filter horizontal_rule css) = 1"
  by (auto simp: dropdown_render_def DropdownWrapperBody_css_horizontal dropdown_bodyProps_def split: if_splits)

lemma dropdown_render_default_left:
  "dropdown_render p s = Some css \<Longrightarrow> horizontalPosition p = None \<Longrightarrow> ''left: 0;'' \<in> set css"
  by (auto simp: dropdown_render_def DropdownWrapperBody_css_def dropdown_bodyProps_def split: if_splits)

end
