(* ===== verification/TokenDropdown.thy ===== *)
theory TokenDropdown
  imports SteadyStore Dropdown
begin

text \<open>
  The token selector of \<open>src/src/components/steady/common/token_dropdown.tsx\<close>
  and its composition with the \<open>Dropdown\<close> it wraps and the steady slice it is
  connected to. \<open>steadyApp\<close> holds the three pieces of state one selector
  touches: the store slice, the inner dropdown and the selector's own token
  list. A click on a row is the sequence of handlers React runs for it: the
  document \<open>mousedown\<close> listener, the row's \<open>onClick\<close>
  (\<open>_setSelectedToken\<close>), then the body's \<open>onClick\<close> as the event bubbles.
\<close>

section \<open>Data\<close>

record tokenDropdownState =
  tokens :: "token list"

record tokenRow =
  rowLabel :: string
  rowActive :: bool

text \<open>What \<open>render\<close> shows: the header text and, while open, the body's rules and the rows with theirs.\<close>

record tokenDropdownView =
  td_header :: string
  td_body :: "(string list \<times> (tokenRow \<times> string list) list) option"

record steadyApp =
  app_store :: steadyState
  app_dropdown :: dropdownState
  app_tokenDropdown :: tokenDropdownState

section \<open>Operations\<close>

definition tokenDropdown_initial :: "knownTokens \<Rightarrow> tokenDropdownState" where
  "tokenDropdown_initial kt = \<lparr>tokens = getSteadyTokens kt\<rparr>"

text \<open>The header text: the selected symbol in upper case, or nothing.\<close>

definition tokenDropdown_header :: "token option \<Rightarrow> string" where
  "tokenDropdown_header ct = (case ct of None \<Rightarrow> [] | Some t \<Rightarrow> toUpperCase (symbol t))"

text \<open>\<open>_getTokens\<close>: one row per token, active when it is the selected token.\<close>

definition token_rows :: "tokenDropdownState \<Rightarrow> token option \<Rightarrow> tokenRow list" where
  "token_rows st ct = map (\<lambda>t. \<lparr>rowLabel = toUpperCase (symbol t), rowActive = (ct = Some t)\<rparr>) (tokens st)"

text \<open>\<open>mapStateToProps\<close>: the selector is connected to the store's selected token.\<close>

definition tokenDropdown_mapStateToProps :: "steadyState \<Rightarrow> token option" where
  "tokenDropdown_mapStateToProps st = currentToken st"

text \<open>\<open>mapDispatchToProps\<close>: the \<open>changeCurrentToken\<close> prop dispatches the action creator's result.\<close>

definition tokenDropdown_changeCurrentToken :: "token \<Rightarrow> rootAction list" where
  "tokenDropdown_changeCurrentToken t = tr_actions (changeCurrentToken t)"

text \<open>
  \<open>_setSelectedToken\<close>: dispatch \<open>changeCurrentToken\<close>, then close the dropdown
  through its ref when it is mounted.
\<close>

definition setSelectedToken :: "steadyState \<Rightarrow> token \<Rightarrow> steadyApp \<Rightarrow> rootAction list \<times> steadyApp" where
  "setSelectedToken init t a =
     (let acts = tokenDropdown_changeCurrentToken t in
      (acts, a\<lparr>app_store := dispatch_all init (app_store a) acts,
               app_dropdown := (if wrapperRef (app_dropdown a) then closeDropdown (app_dropdown a)
                                else app_dropdown a)\<rparr>))"

text \<open>A click on row \<open>i\<close>; rows exist only while the body is rendered.\<close>

definition row_click :: "dropdownProps \<Rightarrow> steadyState \<Rightarrow> nat \<Rightarrow> steadyApp \<Rightarrow> rootAction list \<times> steadyApp" where
  "row_click p init i a =
     (if wrapperRef (app_dropdown a) \<and> isOpen (app_dropdown a) \<and> i < length (tokens (app_tokenDropdown a))
      then (let a0 = a\<lparr>app_dropdown := dropdown_step p (app_dropdown a) (DocumentMouseDown True)\<rparr>;
                r = setSelectedToken init (tokens (app_tokenDropdown a) ! i) a0
            in (fst r, (snd r)\<lparr>app_dropdown := closeDropdownBody p (app_dropdown (snd r))\<rparr>))
      else ([], a))"

text \<open>\<open>TRStyled\<close>: an active row has the theme's row colour and the default cursor.\<close>

definition TRStyled_css :: "bool \<Rightarrow> string list" where
  "TRStyled_css active =
     [(if active then ''background-color: rowActive;'' else ''background-color: transparent;''),
      (if active then ''cursor: default;'' else ''cursor: pointer;'')]"

text \<open>
  The props \<open>render\<close> gives the inner \<open>Dropdown\<close>: the three \<open>steadyCustom\<close>
  flags set, then the selector's other props spread over them.
\<close>

definition tokenDropdown_dropdownProps :: "dropdownProps \<Rightarrow> dropdownProps" where
  "tokenDropdown_dropdownProps rest =
     rest\<lparr>steadyCustomTop := Some (case steadyCustomTop rest of None \<Rightarrow> True | Some b \<Rightarrow> b),
          steadyCustomWidth := Some (case steadyCustomWidth rest of None \<Rightarrow> True | Some b \<Rightarrow> b),
          steadyCustomZIndex := Some (case steadyCustomZIndex rest of None \<Rightarrow> True | Some b \<Rightarrow> b)\<rparr>"

text \<open>\<open>render\<close>: the header always, the body through the dropdown while it is open.\<close>

definition tokenDropdown_render ::
    "dropdownProps \<Rightarrow> token option \<Rightarrow> tokenDropdownState \<Rightarrow> dropdownState \<Rightarrow> tokenDropdownView" where
  "tokenDropdown_render rest ct st ds =
     \<lparr>td_header = tokenDropdown_header ct,
      td_body = map_option (\<lambda>css. (css, map (\<lambda>r. (r, TRStyled_css (rowActive r))) (token_rows st ct)))
                  (dropdown_render (tokenDropdown_dropdownProps rest) ds)\<rparr>"

text \<open>
  The props the deposit/withdraw panel renders the selector with
  (\<open><TokenDropdown shouldCloseDropdownBodyOnClick={false} />\<close>): the
  attribute is no prop of \<open>Dropdown\<close> and falls through to the wrapper
  \<open>div\<close>, so \<open>Dropdown\<close> sees its defaults and the selector's flags.
\<close>

definition depositWithdraw_dropdownProps :: dropdownProps where
  "depositWithdraw_dropdownProps =
     tokenDropdown_dropdownProps \<lparr>shouldCloseDropdownOnClickOutside = None, horizontalPosition = None,
       steadyCustomTop = None, steadyCustomWidth = None, steadyCustomZIndex = None\<rparr>"

definition steadyApp_initial :: "knownTokens \<Rightarrow> steadyApp" where
  "steadyApp_initial kt =
     \<lparr>app_store = initialSteadyState kt, app_dropdown = dropdown_initial,
      app_tokenDropdown = tokenDropdown_initial kt\<rparr>"

section \<open>Reachable states of the selector\<close>

text \<open>
  From the initial state: any event on the inner dropdown, any row click, and
  any \<open>setAddresses\<close> dispatched by the address fetches.
\<close>

inductive app_reachable :: "knownTokens \<Rightarrow> dropdownProps \<Rightarrow> steadyApp \<Rightarrow> bool" for kt p where
  start: "app_reachable kt p (steadyApp_initial kt)"
| dropdown: "app_reachable kt p a \<Longrightarrow> app_reachable kt p (a\<lparr>app_dropdown := dropdown_step p (app_dropdown a) e\<rparr>)"
| row: "app_reachable kt p a \<Longrightarrow> app_reachable kt p (snd (row_click p (initialSteadyState kt) i a))"
| fetched: "app_reachable kt p a \<Longrightarrow>
    app_reachable kt p (a\<lparr>app_store := dispatch_all (initialSteadyState kt) (app_store a) [setAddresses as]\<rparr>)"

text \<open>
  The same steps as events, for runs from a given state: an event on the inner
  dropdown, a click on a row, the arrival of fetched addresses.
\<close>

datatype appEvent = SelectorDom domEvent | RowClick nat | AddressesFetched "addressEntry list"

definition app_step :: "knownTokens \<Rightarrow> dropdownProps \<Rightarrow> steadyApp \<Rightarrow> appEvent \<Rightarrow> steadyApp" where
  "app_step kt p a ev =
     (case ev of
        SelectorDom e \<Rightarrow> a\<lparr>app_dropdown := dropdown_step p (app_dropdown a) e\<rparr>
      | RowClick i \<Rightarrow> snd (row_click p (initialSteadyState kt) i a)
      | AddressesFetched as \<Rightarrow> a\<lparr>app_store := dispatch_all (initialSteadyState kt) (app_store a) [setAddresses as]\<rparr>)"

definition app_run :: "knownTokens \<Rightarrow> dropdownProps \<Rightarrow> steadyApp \<Rightarrow> appEvent list \<Rightarrow> steadyApp" where
  "app_run kt p a evs = foldl (app_step kt p) a evs"

text \<open>Choosing row \<open>i\<close>: open the selector by a header click if it is closed, then click the row.\<close>

definition select_gesture :: "steadyApp \<Rightarrow> nat \<Rightarrow> appEvent list" where
  "select_gesture a i = (if isOpen (app_dropdown a) then [] else map SelectorDom click_header) @ [RowClick i]"

definition selection_in_registry :: "knownTokens \<Rightarrow> token option \<Rightarrow> bool" where
  "selection_in_registry kt ct =
     (case ct of None \<Rightarrow> getSteadyTokens kt = [] | Some t \<Rightarrow> t \<in> set (getSteadyTokens kt))"

definition app_inv :: "knownTokens \<Rightarrow> steadyApp \<Rightarrow> bool" where
  "app_inv kt a \<longleftrightarrow>
     tokens (app_tokenDropdown a) = getSteadyTokens kt
     \<and> selection_in_registry kt (currentToken (app_store a))
     \<and> dropdown_inv (app_dropdown a)"

definition sample_app_open :: steadyApp where
  "sample_app_open =
     (steadyApp_initial sample_steady_registry)\<lparr>app_dropdown := open_mounted\<rparr>"

definition sample_app_closed :: steadyApp where
  "sample_app_closed =
     (steadyApp_initial sample_steady_registry)\<lparr>app_dropdown := closed_mounted\<rparr>"

lemmas sample_app_open_defs = sample_app_open_def steadyApp_initial_def tokenDropdown_initial_def
  getSteadyTokens_def sample_steady_registry_def open_mounted_def

section \<open>Properties\<close>

lemma row_click_fires:
  assumes "wrapperRef (app_dropdown a)" "isOpen (app_dropdown a)" "i < length (tokens (app_tokenDropdown a))"
  shows "row_click p init i a =
           ([SetCurrentToken (tokens (app_tokenDropdown a) ! i)],
            a\<lparr>app_store := (app_store a)\<lparr>currentToken := Some (tokens (app_tokenDropdown a) ! i)\<rparr>,
              app_dropdown := (app_dropdown a)\<lparr>isOpen := False\<rparr>\<rparr>)"
  using assms
  by (simp add: row_click_def setSelectedToken_def tokenDropdown_changeCurrentToken_def changeCurrentToken_def setCurrentToken_def steady_def
        handleClickOutside_def closeDropdown_def closeDropdownBody_def Let_def)

lemma row_click_idle:
  "\<not> (wrapperRef (app_dropdown a) \<and> isOpen (app_dropdown a) \<and> i < length (tokens (app_tokenDropdown a)))
   \<Longrightarrow> row_click p init i a = ([], a)"
  unfolding row_click_def by auto

text \<open>
  (C23) Clicking row \<open>i\<close> of an open, mounted selector dispatches exactly one
  action, \<open>setCurrentToken\<close> of the \<open>i\<close>-th token, selects that token in the
  store and leaves the dropdown closed, whatever the dropdown's props.
\<close>

theorem row_click_selects:
  assumes "wrapperRef (app_dropdown a)" and "isOpen (app_dropdown a)"
    and "i < length (tokens (app_tokenDropdown a))"
  shows "fst (row_click p init i a) = [SetCurrentToken (tokens (app_tokenDropdown a) ! i)]
         \<and> currentToken (app_store (snd (row_click p init i a))) = Some (tokens (app_tokenDropdown a) ! i)
         \<and> \<not> isOpen (app_dropdown (snd (row_click p init i a)))"
  using row_click_fires [OF assms] by simp

theorem row_click_selects_witness:
  "fst (row_click depositWithdraw_dropdownProps (initialSteadyState sample_steady_registry) 1 sample_app_open)
     = [SetCurrentToken usdt_token]
   \<and> currentToken (app_store (snd (row_click depositWithdraw_dropdownProps
        (initialSteadyState sample_steady_registry) 1 sample_app_open))) = Some usdt_token
   \<and> \<not> isOpen (app_dropdown (snd (row_click depositWithdraw_dropdownProps
        (initialSteadyState sample_steady_registry) 1 sample_app_open)))"
  using row_click_selects [of sample_app_open 1 depositWithdraw_dropdownProps
      "initialSteadyState sample_steady_registry"]
  by (simp add: sample_app_open_defs)

lemma map_selected_nth:
  assumes "distinct ts" and "i < length ts"
  shows "map (\<lambda>t. Some (ts ! i) = Some t) ts = map (\<lambda>j. j = i) [0..<length ts]"
proof -
  have "map (\<lambda>t. Some (ts ! i) = Some t) ts = map (\<lambda>t. Some (ts ! i) = Some t) (map ((!) ts) [0..<length ts])"
    by (simp add: map_nth)
  also have "\<dots> = map (\<lambda>j. j = i) [0..<length ts]"
    using assms by (auto simp: nth_eq_iff_index_eq)
  finally show ?thesis .
qed

text \<open>
  (C24) After a click on row \<open>i\<close>, when the listed tokens are distinct,
  exactly row \<open>i\<close> is rendered active.
\<close>

theorem row_click_active_row:
  assumes "wrapperRef (app_dropdown a)" and "isOpen (app_dropdown a)"
    and "i < length (tokens (app_tokenDropdown a))" and "distinct (tokens (app_tokenDropdown a))"
  shows "map rowActive (token_rows (app_tokenDropdown (snd (row_click p init i a)))
                          (currentToken (app_store (snd (row_click p init i a)))))
         = map (\<lambda>j. j = i) [0..<length (tokens (app_tokenDropdown a))]"
  using row_click_fires [OF assms(1-3)] map_selected_nth [OF assms(4,3)]
  by (simp add: token_rows_def comp_def)

theorem row_click_active_row_witness:
  "distinct (tokens (app_tokenDropdown sample_app_open))
   \<and> map rowActive (token_rows (app_tokenDropdown (snd (row_click depositWithdraw_dropdownProps
        (initialSteadyState sample_steady_registry) 1 sample_app_open)))
        (currentToken (app_store (snd (row_click depositWithdraw_dropdownProps
        (initialSteadyState sample_steady_registry) 1 sample_app_open))))) = [False, True]"
  using row_click_active_row [of sample_app_open 1 depositWithdraw_dropdownProps
      "initialSteadyState sample_steady_registry"]
  by (simp add: sample_app_open_defs sample_token_defs sample_data_defs upt_rec)

lemma initial_selection_in_registry:
  "selection_in_registry kt (currentToken (initialSteadyState kt))"
  by (simp add: selection_in_registry_def initialSteadyState_def getSteadyDefaultToken_def
        getSteadyTokens_def split: list.splits)

lemma app_inv_initial: "app_inv kt (steadyApp_initial kt)"
  by (simp add: app_inv_def steadyApp_initial_def tokenDropdown_initial_def initial_selection_in_registry
        dropdown_inv_def dropdown_initial_def)

lemma app_inv_row_click: "app_inv kt a \<Longrightarrow> app_inv kt (snd (row_click p init i a))"
  by (cases "wrapperRef (app_dropdown a) \<and> isOpen (app_dropdown a) \<and> i < length (tokens (app_tokenDropdown a))")
     (auto simp: row_click_fires row_click_idle app_inv_def selection_in_registry_def dropdown_inv_def)

lemma app_reachable_inv:
  assumes "app_reachable kt p a"
  shows "app_inv kt a"
  using assms
proof (induction rule: app_reachable.induct)
  case start
  show ?case by (rule app_inv_initial)
next
  case (dropdown a e)
  then show ?case by (simp add: app_inv_def dropdown_step_inv)
next
  case (row a i)
  from row.IH show ?case by (rule app_inv_row_click)
next
  case (fetched a as)
  then show ?case by (simp add: app_inv_def setAddresses_def steady_def)
qed

text \<open>
  (C21) In every state the selector can reach, from the initial store through
  dropdown events, row clicks and address fetches, the selected token is one
  of the steady registry's tokens, and it is \<open>undefined\<close> only when the
  registry lists none.
\<close>

theorem selection_always_registered:
  assumes "app_reachable kt p a"
  shows "selection_in_registry kt (currentToken (app_store a))"
  using app_reachable_inv [OF assms] by (simp add: app_inv_def)

lemma sample_app_open_reachable: "app_reachable sample_steady_registry p sample_app_open"
proof -
  let ?a0 = "steadyApp_initial sample_steady_registry"
  have "app_reachable sample_steady_registry p (?a0\<lparr>app_dropdown := dropdown_step p (app_dropdown ?a0) Mount\<rparr>)"
    by (rule app_reachable.dropdown [OF app_reachable.start])
  then have "app_reachable sample_steady_registry p
     ((?a0\<lparr>app_dropdown := dropdown_step p (app_dropdown ?a0) Mount\<rparr>)\<lparr>app_dropdown :=
        dropdown_step p (app_dropdown (?a0\<lparr>app_dropdown := dropdown_step p (app_dropdown ?a0) Mount\<rparr>)) HeaderClick\<rparr>)"
    by (rule app_reachable.dropdown)
  then show ?thesis
    by (simp add: sample_app_open_def steadyApp_initial_def dropdown_initial_def open_mounted_def
          componentDidMount_def setWrapperRef_def toggleDropdown_def)
qed

theorem selection_always_registered_witness:
  "app_reachable sample_steady_registry default_dropdownProps
     (snd (row_click default_dropdownProps (initialSteadyState sample_steady_registry) 1 sample_app_open))
   \<and> selection_in_registry sample_steady_registry
     (currentToken (app_store (snd (row_click default_dropdownProps
        (initialSteadyState sample_steady_registry) 1 sample_app_open))))"
proof -
  have r: "app_reachable sample_steady_registry default_dropdownProps
     (snd (row_click default_dropdownProps (initialSteadyState sample_steady_registry) 1 sample_app_open))"
    by (rule app_reachable.row [OF sample_app_open_reachable])
  from r selection_always_registered [OF r] show ?thesis by simp
qed

lemma app_reachable_step:
  assumes "app_reachable kt p a"
  shows "app_reachable kt p (app_step kt p a e)"
proof (cases e)
  case (SelectorDom d)
  then show ?thesis using app_reachable.dropdown [OF assms] by (simp add: app_step_def)
next
  case (RowClick i)
  then show ?thesis using app_reachable.row [OF assms] by (simp add: app_step_def)
next
  case (AddressesFetched as)
  then show ?thesis using app_reachable.fetched [OF assms, of as] by (simp add: app_step_def)
qed

lemma app_reachable_run: "app_reachable kt p a \<Longrightarrow> app_reachable kt p (app_run kt p a evs)"
  unfolding app_run_def by (induction evs arbitrary: a) (simp_all add: app_reachable_step)

lemma app_run_Nil: "app_run kt p a [] = a"
  by (simp add: app_run_def)

lemma app_run_append: "app_run kt p a (xs @ ys) = app_run kt p (app_run kt p a xs) ys"
  by (simp add: app_run_def)

lemma app_run_click_header:
  "wrapperRef (app_dropdown a) \<Longrightarrow>
     app_run kt p a (map SelectorDom click_header) = a\<lparr>app_dropdown := toggleDropdown (app_dropdown a)\<rparr>"
  by (simp add: app_run_def app_step_def click_header_def handleClickOutside_def)

text \<open>
  (C22) Liveness of the selector: from every reachable state in which it is
  mounted, any token of the steady registry can be selected by at most three
  events (a header click when the dropdown is closed, then a click on the
  token's row); the state reached is again reachable, holds that token as the
  selection and has the dropdown closed.
\<close>

theorem any_token_selectable:
  assumes "app_reachable kt p a" and "wrapperRef (app_dropdown a)" and "t \<in> set (getSteadyTokens kt)"
  shows "\<exists>evs. length evs \<le> 3 \<and> app_reachable kt p (app_run kt p a evs)
              \<and> currentToken (app_store (app_run kt p a evs)) = Some t
              \<and> \<not> isOpen (app_dropdown (app_run kt p a evs))"
proof -
  have "tokens (app_tokenDropdown a) = getSteadyTokens kt"
    using app_reachable_inv [OF assms(1)] by (simp add: app_inv_def)
  then obtain i where i: "i < length (tokens (app_tokenDropdown a))" "tokens (app_tokenDropdown a) ! i = t"
    using assms(3) by (auto simp: in_set_conv_nth)
  define hdr where "hdr = (if isOpen (app_dropdown a) then [] else map SelectorDom click_header)"
  let ?a1 = "app_run kt p a hdr"
  have a1: "wrapperRef (app_dropdown ?a1)" "isOpen (app_dropdown ?a1)"
    "tokens (app_tokenDropdown ?a1) = tokens (app_tokenDropdown a)"
    using assms(2) by (auto simp: hdr_def app_run_click_header toggleDropdown_def app_run_Nil)
  have run: "app_run kt p a (select_gesture a i) = snd (row_click p (initialSteadyState kt) i ?a1)"
    by (simp add: select_gesture_def hdr_def [symmetric] app_run_append) (simp add: app_run_def app_step_def)
  have fires: "row_click p (initialSteadyState kt) i ?a1 =
      ([SetCurrentToken t], ?a1\<lparr>app_store := (app_store ?a1)\<lparr>currentToken := Some t\<rparr>,
                               app_dropdown := (app_dropdown ?a1)\<lparr>isOpen := False\<rparr>\<rparr>)"
    using row_click_fires [OF a1(1,2), of i] i a1(3) by simp
  show ?thesis
  proof (intro exI conjI)
    show "length (select_gesture a i) \<le> 3" by (simp add: select_gesture_def click_header_def)
    show "app_reachable kt p (app_run kt p a (select_gesture a i))" by (rule app_reachable_run [OF assms(1)])
    show "currentToken (app_store (app_run kt p a (select_gesture a i))) = Some t" by (simp add: run fires)
    show "\<not> isOpen (app_dropdown (app_run kt p a (select_gesture a i)))" by (simp add: run fires)
  qed
qed

lemma sample_app_closed_reachable: "app_reachable sample_steady_registry p sample_app_closed"
proof -
  have "app_reachable sample_steady_registry p
          (app_step sample_steady_registry p (steadyApp_initial sample_steady_registry) (SelectorDom Mount))"
    by (rule app_reachable_step [OF app_reachable.start])
  then show ?thesis
    by (simp add: app_step_def sample_app_closed_def steadyApp_initial_def dropdown_initial_def closed_mounted_def
          componentDidMount_def setWrapperRef_def)
qed

theorem any_token_selectable_witness:
  "app_reachable sample_steady_registry depositWithdraw_dropdownProps sample_app_closed
   \<and> wrapperRef (app_dropdown sample_app_closed) \<and> usdt_token \<in> set (getSteadyTokens sample_steady_registry)
   \<and> (\<exists>evs. length evs \<le> 3
        \<and> app_reachable sample_steady_registry depositWithdraw_dropdownProps
             (app_run sample_steady_registry depositWithdraw_dropdownProps sample_app_closed evs)
        \<and> currentToken (app_store (app_run sample_steady_registry depositWithdraw_dropdownProps
             sample_app_closed evs)) = Some usdt_token
        \<and> \<not> isOpen (app_dropdown (app_run sample_steady_registry depositWithdraw_dropdownProps
             sample_app_closed evs)))"
proof -
  have r: "app_reachable sample_steady_registry depositWithdraw_dropdownProps sample_app_closed"
    by (rule sample_app_closed_reachable)
  have m: "wrapperRef (app_dropdown sample_app_closed)"
    by (simp add: sample_app_closed_def closed_mounted_def)
  have u: "usdt_token \<in> set (getSteadyTokens sample_steady_registry)"
    by (simp add: getSteadyTokens_def sample_steady_registry_def)
  from r m u any_token_selectable [OF r m u] show ?thesis by blast
qed

end
