(* ===== verification/AddressInput.thy ===== *)
theory AddressInput
  imports Prelude
begin

text \<open>
  The text input of \<open>src/src/components/common/address_input.tsx\<close>. Its
  state \<open>currentValueStr\<close> is recomputed from the \<open>value\<close> prop by
  \<open>getDerivedStateFromProps\<close>, which React calls before every render,
  including the one that follows the input's own \<open>setState\<close>: what the field
  shows is always determined by its parent. Mounting focuses the field when
  \<open>autofocus\<close> is set; styling is not modelled.
\<close>

section \<open>Data\<close>

record addressInputProps =
  ai_value :: "string option"
  ai_autofocus :: bool
  ai_placeholder :: "string option"

record addressInputState =
  currentValueStr :: string

text \<open>The attributes of the \<open><Input>\<close> element \<open>render\<close> returns that carry data.\<close>

record inputElement =
  el_type :: string
  el_value :: string
  el_placeholder :: string

section \<open>Operations\<close>

text \<open>\<open>this.props.value ? this.props.value : ''\<close>.\<close>

definition addressInput_initial :: "addressInputProps \<Rightarrow> addressInputState" where
  "addressInput_initial p =
     \<lparr>currentValueStr = (case ai_value p of None \<Rightarrow> [] | Some v \<Rightarrow> if v = [] then [] else v)\<rparr>"

definition getDerivedStateFromProps :: "addressInputProps \<Rightarrow> addressInputState \<Rightarrow> addressInputState" where
  "getDerivedStateFromProps p st =
     (case ai_value p of
        None \<Rightarrow> \<lparr>currentValueStr = []\<rparr>
      | Some v \<Rightarrow> (if v = [] then \<lparr>currentValueStr = []\<rparr> else \<lparr>currentValueStr = v\<rparr>))"

text \<open>
  \<open>_updateValue\<close>: the value handed to \<open>onChange\<close> (\<open>newValueStr || ''\<close>) and
  the state after \<open>setState\<close>.
\<close>

definition updateValue :: "string \<Rightarrow> addressInputState \<Rightarrow> string \<times> addressInputState" where
  "updateValue newValueStr st =
     ((if newValueStr = [] then [] else newValueStr), st\<lparr>currentValueStr := newValueStr\<rparr>)"

text \<open>\<open>componentDidMount\<close>: whether the DOM input is focused on mount.\<close>

definition addressInput_componentDidMount :: "addressInputProps \<Rightarrow> bool" where
  "addressInput_componentDidMount p = ai_autofocus p"

text \<open>
  \<open>defaultProps\<close>: React substitutes the empty placeholder when the prop is
  \<open>undefined\<close>.
\<close>

definition addressInput_placeholder :: "addressInputProps \<Rightarrow> string" where
  "addressInput_placeholder p = (case ai_placeholder p of None \<Rightarrow> [] | Some s \<Rightarrow> s)"

text \<open>
  \<open>render\<close> with props \<open>p\<close>: React first applies
  \<open>getDerivedStateFromProps\<close>, and the element shows the resulting
  \<open>currentValueStr\<close>.
\<close>

definition addressInput_render :: "addressInputProps \<Rightarrow> addressInputState \<Rightarrow> inputElement" where
  "addressInput_render p st =
     \<lparr>el_type = ''string'', el_value = currentValueStr (getDerivedStateFromProps p st),
      el_placeholder = addressInput_placeholder p\<rparr>"

section \<open>Lemmas\<close>

lemma addressInput_render_controlled:
  "el_value (addressInput_render p st) = (case ai_value p of None \<Rightarrow> [] | Some v \<Rightarrow> v)"
  by (simp add: addressInput_render_def getDerivedStateFromProps_def split: option.splits)

lemma updateValue_onChange: "fst (updateValue x st) = x"
  by (simp add: updateValue_def)

end
