(* ===== verification/DepositWithdraw.thy ===== *)
theory DepositWithdraw
  imports TokenDropdown AddressInput
begin

text \<open>
  The deposit/withdraw panel of
  \<open>src/src/components/steady/exchange/deposit_withdraw.tsx\<close>: its local state,
  the lookup of the deposit address of the selected token in the store's
  address list, what \<open>render\<close> shows, and what \<open>submit\<close> and \<open>withdraw\<close> ask of
  the wallet. The connected props come from the store (\<open>mapStateToProps\<close>).
  Amounts are \<open>BigNumber\<close>s produced by \<open>BigNumberInput\<close> in base units:
  integers. The address validator \<open>WAValidator.validate\<close> and the display
  function \<open>tokenSymbolToDisplayString\<close> are library or out-of-tree functions
  the code only calls; they are parameters. \<open>window.web3\<close> may be absent,
  which makes any call on it throw.
\<close>

section \<open>Data\<close>

datatype steadySide = Deposit | Withdraw

datatype web3State = Done | Loading | Locked | NotInstalled | Web3Error

datatype buttonVariant = VariantError | VariantDeposit | VariantWithdraw

record errorMsgs =
  btnMsg :: "string option"
  cardMsg :: "string option"

record depositWithdrawState =
  withdrawAmount :: "int option"
  price :: "int option"
  dw_address :: "string option"
  tab :: steadySide
  dw_error :: errorMsgs

record depositWithdrawProps =
  dw_web3State :: web3State
  dw_currentToken :: "token option"
  dw_addresses :: "addressEntry list option"

text \<open>A tab button: its label, the side it selects, whether it is selected, its style rules.\<close>

record tabView =
  tab_label :: string
  tab_side :: steadySide
  tab_isSelected :: bool
  tab_css :: "string list"

text \<open>
  \<open>getInputContent\<close>: the amount field (\<open>BigNumberInput\<close> with its decimals,
  minimum, value and placeholder, labelled with the token) and the props of
  the address field (\<open>AddressInput\<close>).
\<close>

record inputView =
  in_decimals :: nat
  in_min :: int
  in_amount :: "int option"
  in_amountPlaceholder :: string
  in_tokenLabel :: string
  in_addressInput :: addressInputProps

text \<open>
  What one render shows: the two tabs, the button (text, variant, disabled,
  warning icon), the QR wrapper and code, the copy target, the withdraw
  inputs and the error card.
\<close>

record dwView =
  v_tabs :: "tabView list"
  v_btnText :: string
  v_buttonVariant :: buttonVariant
  v_buttonDisabled :: bool
  v_buttonWarning :: bool
  v_qrShown :: bool
  v_qrContent :: "string option"
  v_copyText :: "string option"
  v_input :: "inputView option"
  v_errorCard :: "string option"

text \<open>The handlers the rendered panel wires: the tabs, the two inputs, the button.\<close>

datatype panelEvent = ClickTab steadySide | AmountChange int | AddressChange string | ClickSubmit

type_synonym address_validator = "string \<Rightarrow> string \<Rightarrow> bool"

section \<open>Operations\<close>

definition depositWithdraw_initial :: depositWithdrawState where
  "depositWithdraw_initial =
     \<lparr>withdrawAmount = None, price = None, dw_address = None, tab = Deposit,
      dw_error = \<lparr>btnMsg = None, cardMsg = None\<rparr>\<rparr>"

definition mapStateToProps :: "web3State \<Rightarrow> steadyState \<Rightarrow> depositWithdrawProps" where
  "mapStateToProps w st =
     \<lparr>dw_web3State = w, dw_currentToken = currentToken st, dw_addresses = addresses st\<rparr>"

text \<open>
  The \<open>forEach\<close> loop of \<open>render\<close> and \<open>submit\<close>: every entry whose coin code
  equals the token's symbol up to case overwrites the result, starting from
  the empty string.
\<close>

definition currentTokenAddress :: "token \<Rightarrow> addressEntry list option \<Rightarrow> string" where
  "currentTokenAddress t as =
     (case as of
        None \<Rightarrow> []
      | Some es \<Rightarrow> foldl (\<lambda>acc e. if toUpperCase (symbol t) = toUpperCase (coinCode e)
                                    then coinAddress e else acc) [] es)"

definition changeTab :: "steadySide \<Rightarrow> depositWithdrawState \<Rightarrow> depositWithdrawState" where
  "changeTab t s = s\<lparr>tab := t\<rparr>"

definition updateWithdrawAmount :: "int \<Rightarrow> depositWithdrawState \<Rightarrow> depositWithdrawState" where
  "updateWithdrawAmount v s = s\<lparr>withdrawAmount := Some v\<rparr>"

definition updateAddress :: "string \<Rightarrow> depositWithdrawState \<Rightarrow> depositWithdrawState" where
  "updateAddress a s = s\<lparr>dw_address := Some a\<rparr>"

definition dw_reset :: "depositWithdrawState \<Rightarrow> depositWithdrawState" where
  "dw_reset s = s\<lparr>withdrawAmount := None, dw_address := None\<rparr>"

definition btnText :: "(string \<Rightarrow> string) \<Rightarrow> depositWithdrawState \<Rightarrow> token \<Rightarrow> string \<Rightarrow> string" where
  "btnText disp s t addr =
     (if btnMsg (dw_error s) \<noteq> None \<and> btnMsg (dw_error s) \<noteq> Some [] then ''Error''
      else if tab s = Deposit then
        (if addr \<noteq> [] then ''Copy Address'' else ''Get '' @ disp (symbol t) @ '' Address'')
      else ''Withdraw '' @ disp (symbol t))"

definition getButtonContent ::
    "web3State \<Rightarrow> errorMsgs \<Rightarrow> string \<Rightarrow> steadySide \<Rightarrow> string
     \<Rightarrow> string \<times> buttonVariant \<times> bool \<times> bool \<times> string option" where
  "getButtonContent w err txt side addr =
     (txt,
      (if btnMsg err \<noteq> None \<and> btnMsg err \<noteq> Some [] then VariantError
       else if side = Deposit then VariantDeposit else VariantWithdraw),
      w \<noteq> Done,
      btnMsg err \<noteq> None \<and> btnMsg err \<noteq> Some [],
      (if addr \<noteq> [] \<and> side = Deposit then Some addr else None))"

text \<open>
  The rules of the styled \<open>TabButton\<close>, in source order, with the theme's
  colours and dimensions by name: the conditional rules, then the rules of
  \<open>&:first-child\<close> and \<open>&:last-child\<close> for a button in that position of
  \<open>TabsContainer\<close>.
\<close>

definition TabButton_css :: "bool \<Rightarrow> steadySide \<Rightarrow> bool \<Rightarrow> bool \<Rightarrow> string list" where
  "TabButton_css isSelected side firstChild lastChild =
     [''align-items: center;'',
      (if isSelected then ''background-color: transparent;'' else ''background-color: inactiveTabBackgroundColor;''),
      (if isSelected then ''border-bottom-color: transparent;'' else ''border-bottom-color: cardBorderColor;''),
      ''border-bottom-style: solid;'', ''border-bottom-width: 1px;'',
      (if isSelected then ''border-right-color: cardBorderColor;'' else ''border-right-color: transparent;''),
      ''border-right-style: solid;'', ''border-right-width: 1px;'',
      (if isSelected then (if side = Deposit then ''color: green;'' else ''color: red;'') else ''color: textLight;''),
      (if isSelected then ''cursor: default;'' else ''cursor: pointer;''),
      ''display: flex;'', ''font-weight: 600;'', ''height: 47px;'', ''justify-content: center;'', ''width: 50%;'']
     @ (if firstChild then [''border-top-left-radius: borderRadius;''] else [])
     @ (if lastChild
        then [(if isSelected then ''border-left-color: cardBorderColor;'' else ''border-left-color: transparent;''),
              ''border-left-style: solid;'', ''border-left-width: 1px;'', ''border-right: none;'',
              ''border-top-right-radius: borderRadius;'']
        else [])"

definition tabButton :: "depositWithdrawState \<Rightarrow> steadySide \<Rightarrow> string \<Rightarrow> bool \<Rightarrow> bool \<Rightarrow> tabView" where
  "tabButton s side label firstChild lastChild =
     \<lparr>tab_label = label, tab_side = side, tab_isSelected = (tab s = side),
      tab_css = TabButton_css (tab s = side) side firstChild lastChild\<rparr>"

text \<open>\<open>BigInputNumberTokenLabel\<close>: the display form of the token's symbol.\<close>

definition BigInputNumberTokenLabel :: "(string \<Rightarrow> string) \<Rightarrow> string \<Rightarrow> string" where
  "BigInputNumberTokenLabel disp tokenSymbol = disp tokenSymbol"

definition getInputContent ::
    "(string \<Rightarrow> string) \<Rightarrow> nat \<Rightarrow> int option \<Rightarrow> token \<Rightarrow> string option \<Rightarrow> inputView" where
  "getInputContent disp dec amount t addr =
     \<lparr>in_decimals = dec, in_min = 0, in_amount = amount, in_amountPlaceholder = ''0.00'',
      in_tokenLabel = BigInputNumberTokenLabel disp (symbol t),
      in_addressInput = \<lparr>ai_value = addr, ai_autofocus = False, ai_placeholder = Some []\<rparr>\<rparr>"

text \<open>
  \<open>render\<close>: \<open>null\<close> (\<open>None\<close>) without a selected token. The withdraw tab reads
  the token's decimals from the trading registry (\<open>getKnownTokens()\<close>), whose
  \<open>getTokenBySymbol\<close> may throw.
\<close>

definition render ::
    "(string \<Rightarrow> string) \<Rightarrow> knownTokens \<Rightarrow> depositWithdrawProps \<Rightarrow> depositWithdrawState \<Rightarrow> error + dwView option" where
  "render disp trading p s =
     (case dw_currentToken p of
        None \<Rightarrow> Inr None
      | Some t \<Rightarrow>
         (let addr = currentTokenAddress t (dw_addresses p);
              txt = btnText disp s t addr;
              tabs = [tabButton s Deposit ''Deposit'' True False, tabButton s Withdraw ''Withdraw'' False True];
              card = (if cardMsg (dw_error s) \<noteq> None \<and> cardMsg (dw_error s) \<noteq> Some [] then cardMsg (dw_error s) else None)
          in if tab s = Deposit then
               (let (bt, bv, bd, bw, cp) = getButtonContent (dw_web3State p) (dw_error s) txt (tab s) addr
                in Inr (Some \<lparr>v_tabs = tabs, v_btnText = bt, v_buttonVariant = bv, v_buttonDisabled = bd,
                              v_buttonWarning = bw, v_qrShown = (addr \<noteq> []),
                              v_qrContent = (if addr \<noteq> [] then Some addr else None), v_copyText = cp,
                              v_input = None, v_errorCard = card\<rparr>))
             else
               (case getTokenBySymbol trading (symbol t) of
                  Inl e \<Rightarrow> Inl e
                | Inr tt \<Rightarrow>
                   (let (bt, bv, bd, bw, cp) = getButtonContent (dw_web3State p) (dw_error s) txt (tab s) []
                    in Inr (Some \<lparr>v_tabs = tabs, v_btnText = bt, v_buttonVariant = bv, v_buttonDisabled = bd,
                                  v_buttonWarning = bw, v_qrShown = (addr \<noteq> []), v_qrContent = None,
                                  v_copyText = cp,
                                  v_input = Some (getInputContent disp (decimals tt) (withdrawAmount s) t (dw_address s)),
                                  v_errorCard = card\<rparr>)))))"

text \<open>
  The state change of each handler \<open>render\<close> wires: \<open>changeTab\<close>,
  \<open>updateWithdrawAmount\<close>, \<open>updateAddress\<close>; \<open>submit\<close> sets no state
  (its call of \<open>_reset\<close> is commented out).
\<close>

definition panel_step :: "depositWithdrawState \<Rightarrow> panelEvent \<Rightarrow> depositWithdrawState" where
  "panel_step s e =
     (case e of
        ClickTab side \<Rightarrow> changeTab side s
      | AmountChange v \<Rightarrow> updateWithdrawAmount v s
      | AddressChange a \<Rightarrow> updateAddress a s
      | ClickSubmit \<Rightarrow> s)"

text \<open>\<open>withdraw\<close>: \<open>ethContract.send(WITHDRAW_ADDRESS, amount, address, cb)\<close> on the ERC-777 contract.\<close>

definition withdraw :: "app_constants \<Rightarrow> bool \<Rightarrow> int \<Rightarrow> string \<Rightarrow> unit thunkRun" where
  "withdraw k web3_available amount addr =
     (if web3_available
      then \<lparr>tr_actions = [], tr_effects = [ContractSend (ERC_777_ADDRESS k) (WITHDRAW_ADDRESS k) amount addr],
            tr_result = Inr ()\<rparr>
      else \<lparr>tr_actions = [], tr_effects = [], tr_result = Inl (WalletError ''web3 is undefined'')\<rparr>)"

text \<open>
  \<open>submit\<close>. Deposit tab: without a known address, ask the wallet to sign the
  fixed BTC message (the address exchange is commented out). Withdraw tab:
  \<open>!withdrawAmount || !address\<close> returns early (a \<open>BigNumber\<close> object is
  always truthy, the empty string is not); otherwise withdraw when the
  validator accepts the address for the token's upper-case symbol.
\<close>

definition submit ::
    "app_constants \<Rightarrow> address_validator \<Rightarrow> bool \<Rightarrow> depositWithdrawProps \<Rightarrow> depositWithdrawState \<Rightarrow> unit thunkRun" where
  "submit k validate web3_available p s =
     (case dw_currentToken p of
        None \<Rightarrow> \<lparr>tr_actions = [], tr_effects = [], tr_result = Inr ()\<rparr>
      | Some t \<Rightarrow>
         (if tab s = Deposit then
            (if currentTokenAddress t (dw_addresses p) = []
             then (if web3_available
                   then \<lparr>tr_actions = [],
                         tr_effects = [PersonalSign ''Get BTC Address'' ''0xdB25001A52E2F44E87F21dfb7FdA4656B84843a6''],
                         tr_result = Inr ()\<rparr>
                   else \<lparr>tr_actions = [], tr_effects = [], tr_result = Inl (WalletError ''web3 is undefined'')\<rparr>)
             else \<lparr>tr_actions = [], tr_effects = [], tr_result = Inr ()\<rparr>)
          else
            (case (withdrawAmount s, dw_address s) of
               (Some amount, Some addr) \<Rightarrow>
                 (if addr = [] then \<lparr>tr_actions = [], tr_effects = [], tr_result = Inr ()\<rparr>
                  else if validate addr (toUpperCase (symbol t)) then withdraw k web3_available amount addr
                  else \<lparr>tr_actions = [], tr_effects = [], tr_result = Inr ()\<rparr>)
             | _ \<Rightarrow> \<lparr>tr_actions = [], tr_effects = [], tr_result = Inr ()\<rparr>)))"

text \<open>
  The dispatch props \<open>mapDispatchToProps\<close> gives the panel, as the calls the
  panel can make. The first four dispatch thunks of the shared store's
  \<open>store/actions\<close>, which is not among this repository's sources; the other
  three dispatch the steady thunks.
\<close>

datatype dispatchCall =
    OnSubmitLimitOrder
  | OnSubmitMarketOrder
  | OnConnectWallet
  | OnFetchTakerAndMakerFee
  | OnTokensDepositAddress string string
  | OnSignMessage string
  | OnChangeAddresses "addressEntry list"

text \<open>
  What a call of a dispatch prop does, as the actions and external calls of
  the thunk it dispatches, \<open>None\<close> for a thunk outside the steady slice. The
  wallet's reply to the signature request, the account and the HTTP response
  are parameters of the run.
\<close>

definition dw_mapDispatchToProps ::
    "app_constants \<Rightarrow> signReply \<Rightarrow> string \<Rightarrow> error + unit \<Rightarrow> dispatchCall
     \<Rightarrow> (rootAction list \<times> effect list) option" where
  "dw_mapDispatchToProps k reply ethAccount response c =
     (case c of
        OnTokensDepositAddress signString coin \<Rightarrow>
          (let r = fetchTokensDepositAddress k signString coin ethAccount response in Some (tr_actions r, tr_effects r))
      | OnSignMessage coin \<Rightarrow> (let r = signMessage reply coin in Some (tr_actions r, tr_effects r))
      | OnChangeAddresses as \<Rightarrow> (let r = changeAddresses as in Some (tr_actions r, tr_effects r))
      | _ \<Rightarrow> None)"

section \<open>Reachable panel states\<close>

inductive panel_reachable :: "depositWithdrawState \<Rightarrow> bool" where
  start: "panel_reachable depositWithdraw_initial"
| step: "panel_reachable s \<Longrightarrow> panel_reachable (panel_step s e)"

section \<open>Reference definitions\<close>

text \<open>The address the lookup means: that of the last entry whose coin code matches.\<close>

definition coin_matches :: "token \<Rightarrow> addressEntry \<Rightarrow> bool" where
  "coin_matches t e \<longleftrightarrow> toUpperCase (symbol t) = toUpperCase (coinCode e)"

definition last_matching_address :: "token \<Rightarrow> addressEntry list option \<Rightarrow> string" where
  "last_matching_address t as =
     (case as of
        None \<Rightarrow> []
      | Some es \<Rightarrow> (case rev (filter (coin_matches t) es) of [] \<Rightarrow> [] | e # _ \<Rightarrow> coinAddress e))"

text \<open>A transfer request of the ERC-777 contract.\<close>

definition is_transfer :: "effect \<Rightarrow> bool" where
  "is_transfer e = (case e of ContractSend _ _ _ _ \<Rightarrow> True | _ \<Rightarrow> False)"

section \<open>Sample inputs\<close>

definition sample_panel_props :: depositWithdrawProps where
  "sample_panel_props =
     \<lparr>dw_web3State = Done, dw_currentToken = Some btc_token,
      dw_addresses = Some [\<lparr>coinCode = ''BTC'', coinAddress = ''3QFwygJ5eo''\<rparr>,
                           \<lparr>coinCode = ''usdt'', coinAddress = ''0x77''\<rparr>]\<rparr>"

definition sample_withdraw_state :: depositWithdrawState where
  "sample_withdraw_state =
     depositWithdraw_initial\<lparr>tab := Withdraw, withdrawAmount := Some 0,
       dw_address := Some ''0xdB25001A52E2F44E87F21dfb7FdA4656B84843a6''\<rparr>"

text \<open>A validator that, like a BTC address check, rejects \<open>0x\<close> addresses for BTC.\<close>

definition sample_validator :: address_validator where
  "sample_validator a coin = (coin \<noteq> ''BTC'' \<or> take 2 a \<noteq> ''0x'')"

lemmas sample_panel_defs = sample_panel_props_def sample_withdraw_state_def depositWithdraw_initial_def
  sample_validator_def sample_trading_registry_def sample_token_defs sample_data_defs

section \<open>Properties\<close>

lemma foldl_last_match:
  "foldl (\<lambda>acc e. if coin_matches t e then coinAddress e else acc) acc es
   = (case rev (filter (coin_matches t) es) of [] \<Rightarrow> acc | e # _ \<Rightarrow> coinAddress e)"
  by (induction es rule: rev_induct) (auto split: list.splits)

text \<open>
  (C31) The \<open>forEach\<close> lookup of the selected token's deposit address
  computes the address of the last entry whose coin code equals the token's
  symbol up to case, and the empty string when there is none.
\<close>

theorem currentTokenAddress_last_match:
  "currentTokenAddress t as = last_matching_address t as"
  using foldl_last_match [of t "[]"]
  by (simp add: currentTokenAddress_def last_matching_address_def coin_matches_def split: option.splits)


text \<open>
  (C25) Submitting a withdrawal whose address the validator rejects for the
  selected coin makes no transfer call.
\<close>

theorem submit_invalid_address_no_transfer:
  assumes "dw_currentToken p = Some t" and "dw_address s = Some addr"
    and "\<not> validate addr (toUpperCase (symbol t))"
  shows "filter is_transfer (tr_effects (submit k validate w p s)) = []"
  using assms
  by (auto simp: submit_def is_transfer_def split: option.splits)

theorem submit_invalid_address_no_transfer_witness:
  "dw_currentToken sample_panel_props = Some btc_token
   \<and> dw_address sample_withdraw_state = Some ''0xdB25001A52E2F44E87F21dfb7FdA4656B84843a6''
   \<and> \<not> sample_validator ''0xdB25001A52E2F44E87F21dfb7FdA4656B84843a6'' (toUpperCase (symbol btc_token))
   \<and> filter is_transfer (tr_effects (submit sample_constants sample_validator True sample_panel_props
        sample_withdraw_state)) = []"
  using submit_invalid_address_no_transfer [of sample_panel_props btc_token sample_withdraw_state
      "''0xdB25001A52E2F44E87F21dfb7FdA4656B84843a6''" sample_validator sample_constants True]
  by (simp add: sample_panel_defs js_simps)

text \<open>
  (C26) \<open>submit\<close> asks the ERC-777 contract for a transfer exactly when a
  token is selected, the withdraw tab is shown, an amount and a non-empty
  address are entered, the validator accepts the address for the coin and
  \<open>window.web3\<close> exists; the transfer goes to \<open>WITHDRAW_ADDRESS\<close> with the
  entered amount, which may be 0.
\<close>

theorem submit_transfer_iff:
  "ContractSend c to amt data \<in> set (tr_effects (submit k validate w p s)) \<longleftrightarrow>
     (\<exists>t. dw_currentToken p = Some t \<and> tab s = Withdraw \<and> withdrawAmount s = Some amt
          \<and> dw_address s = Some data \<and> data \<noteq> [] \<and> validate data (toUpperCase (symbol t)) \<and> w
          \<and> c = ERC_777_ADDRESS k \<and> to = WITHDRAW_ADDRESS k)"
  by (cases "tab s") (auto simp: submit_def withdraw_def split: option.splits)

text \<open>
  (C27) On the deposit tab \<open>submit\<close> dispatches nothing and its only possible
  external call is the signature of the fixed "Get BTC Address" message: no
  deposit address is ever requested or stored, whatever the selected coin.
\<close>

theorem submit_deposit_never_fetches:
  assumes "tab s = Deposit"
  shows "tr_actions (submit k validate w p s) = []
         \<and> set (tr_effects (submit k validate w p s))
             \<subseteq> {PersonalSign ''Get BTC Address'' ''0xdB25001A52E2F44E87F21dfb7FdA4656B84843a6''}"
  using assms by (auto simp: submit_def split: option.splits)

theorem submit_deposit_never_fetches_witness:
  "tab depositWithdraw_initial = Deposit
   \<and> tr_effects (submit sample_constants sample_validator True
        (sample_panel_props\<lparr>dw_addresses := None\<rparr>) depositWithdraw_initial)
     = [PersonalSign ''Get BTC Address'' ''0xdB25001A52E2F44E87F21dfb7FdA4656B84843a6'']"
  using submit_deposit_never_fetches [of depositWithdraw_initial sample_constants sample_validator True
      "sample_panel_props\<lparr>dw_addresses := None\<rparr>"]
  by (simp add: submit_def currentTokenAddress_def depositWithdraw_initial_def sample_panel_defs)

text \<open>
  Rendering the withdraw tab looks the selected steady token up in the
  trading registry: when that lookup throws, so does \<open>render\<close>.
\<close>

theorem render_withdraw_throws:
  assumes "tab s = Withdraw" and "dw_currentToken p = Some t"
    and "getTokenBySymbol trading (symbol t) = Inl e"
  shows "render disp trading p s = Inl e"
  using assms by (simp add: render_def Let_def)

theorem render_withdraw_throws_witness:
  "getTokenBySymbol (sample_trading_registry\<lparr>kt_tokens := [usdt_token]\<rparr>) (symbol btc_token)
     = Inl (TokenSymbolNotFound ''btc'')
   \<and> render toUpperCase (sample_trading_registry\<lparr>kt_tokens := [usdt_token]\<rparr>) sample_panel_props
       sample_withdraw_state = Inl (TokenSymbolNotFound ''btc'')"
proof -
  have g: "getTokenBySymbol (sample_trading_registry\<lparr>kt_tokens := [usdt_token]\<rparr>) (symbol btc_token)
             = Inl (TokenSymbolNotFound ''btc'')"
    by (simp add: getTokenBySymbol_def sample_panel_defs js_simps)
  have "tab sample_withdraw_state = Withdraw" "dw_currentToken sample_panel_props = Some btc_token"
    by (simp_all add: sample_panel_defs)
  from render_withdraw_throws [OF this g, of toUpperCase] g show ?thesis by simp
qed

text \<open>
  (C32) On the deposit tab, when the store holds an address for the selected
  token and no button error is set, \<open>render\<close> shows it as a QR code, makes the
  button copy it and labels the button "Copy Address".
\<close>

theorem render_deposit_known_address:
  assumes "tab s = Deposit" and "dw_currentToken p = Some t"
    and "currentTokenAddress t (dw_addresses p) = a" and "a \<noteq> []" and "btnMsg (dw_error s) = None"
  shows "\<exists>v. render disp trading p s = Inr (Some v) \<and> v_qrContent v = Some a \<and> v_copyText v = Some a
              \<and> v_btnText v = ''Copy Address'' \<and> v_buttonVariant v = VariantDeposit"
  using assms by (simp add: render_def Let_def btnText_def getButtonContent_def)

theorem render_deposit_known_address_witness:
  "currentTokenAddress btc_token (dw_addresses sample_panel_props) = ''3QFwygJ5eo''
   \<and> (\<exists>v. render toUpperCase sample_trading_registry sample_panel_props depositWithdraw_initial = Inr (Some v)
          \<and> v_qrContent v = Some ''3QFwygJ5eo'')"
proof -
  have a: "currentTokenAddress btc_token (dw_addresses sample_panel_props) = ''3QFwygJ5eo''"
    by (simp add: currentTokenAddress_def sample_panel_defs js_simps)
  have "tab depositWithdraw_initial = Deposit" "dw_currentToken sample_panel_props = Some btc_token"
    "''3QFwygJ5eo'' \<noteq> []" "btnMsg (dw_error depositWithdraw_initial) = None"
    by (simp_all add: depositWithdraw_initial_def sample_panel_defs)
  from render_deposit_known_address [OF this(1,2) a this(3,4), of toUpperCase sample_trading_registry] a
  show ?thesis by blast
qed

text \<open>
  Whenever the panel renders, its button is disabled exactly when the
  wallet state is not \<open>Done\<close>.
\<close>

theorem render_button_disabled:
  assumes "render disp trading p s = Inr (Some v)"
  shows "v_buttonDisabled v \<longleftrightarrow> dw_web3State p \<noteq> Done"
  using assms
  by (auto simp: render_def Let_def getButtonContent_def split: option.splits if_splits sum.splits)

theorem render_button_disabled_witness:
  "\<exists>v. render toUpperCase sample_trading_registry (sample_panel_props\<lparr>dw_web3State := Loading\<rparr>)
          depositWithdraw_initial = Inr (Some v) \<and> v_buttonDisabled v"
proof -
  obtain v where r: "render toUpperCase sample_trading_registry (sample_panel_props\<lparr>dw_web3State := Loading\<rparr>)
          depositWithdraw_initial = Inr (Some v)"
    by (simp add: render_def Let_def depositWithdraw_initial_def getButtonContent_def sample_panel_defs)
  from render_button_disabled [OF r] r show ?thesis by auto
qed


lemma render_tabs:
  "render disp trading p s = Inr (Some v) \<Longrightarrow>
   v_tabs v = [tabButton s Deposit ''Deposit'' True False, tabButton s Withdraw ''Withdraw'' False True]"
  by (auto simp: render_def Let_def split: option.splits if_splits sum.splits prod.splits)

text \<open>
  Whenever the panel renders, the line between its two tabs is drawn by the
  selected tab alone: the first tab colours its right border exactly when it
  is selected, the last tab, whose right border \<open>&:last-child\<close> removes,
  colours its left border exactly when it is selected, and exactly one of the
  two is selected.
\<close>

theorem tabs_single_separator:
  assumes "render disp trading p s = Inr (Some v)"
  shows "\<exists>d w. v_tabs v = [d, w]
           \<and> (''border-right-color: cardBorderColor;'' \<in> set (tab_css d)) = tab_isSelected d
           \<and> (''border-left-color: cardBorderColor;'' \<in> set (tab_css w)) = tab_isSelected w
           \<and> ''border-right: none;'' \<in> set (tab_css w) \<and> ''border-right: none;'' \<notin> set (tab_css d)
           \<and> tab_isSelected d \<noteq> tab_isSelected w"
  using render_tabs [OF assms]
  by (cases "tab s") (simp_all add: tabButton_def TabButton_css_def)

lemma panel_reachable_no_error:
  "panel_reachable s \<Longrightarrow> dw_error s = \<lparr>btnMsg = None, cardMsg = None\<rparr>"
  by (induction rule: panel_reachable.induct)
     (auto simp: depositWithdraw_initial_def panel_step_def changeTab_def updateWithdrawAmount_def
        updateAddress_def split: panelEvent.splits)

text \<open>
  (C28) No handler of the panel ever sets an error message: in every state
  the user can reach by switching tabs, typing an amount or an address and
  pressing the button, a render shows no "Error" button text, no error
  variant, no warning icon and no error card.
\<close>

theorem panel_never_shows_error:
  assumes "panel_reachable s" and "render disp trading p s = Inr (Some v)"
  shows "v_btnText v \<noteq> ''Error'' \<and> v_buttonVariant v \<noteq> VariantError \<and> \<not> v_buttonWarning v
         \<and> v_errorCard v = None"
proof -
  have e: "btnMsg (dw_error s) = None" "cardMsg (dw_error s) = None"
    using panel_reachable_no_error [OF assms(1)] by simp_all
  from assms(2) e show ?thesis
    by (auto simp: render_def Let_def getButtonContent_def btnText_def split: option.splits if_splits sum.splits)
qed

theorem panel_never_shows_error_witness:
  "panel_reachable (panel_step depositWithdraw_initial (AddressChange ''3QFwygJ5eo''))
   \<and> (\<exists>v. render toUpperCase sample_trading_registry sample_panel_props
            (panel_step depositWithdraw_initial (AddressChange ''3QFwygJ5eo'')) = Inr (Some v)
          \<and> v_btnText v \<noteq> ''Error'' \<and> v_buttonVariant v \<noteq> VariantError \<and> \<not> v_buttonWarning v
          \<and> v_errorCard v = None)"
proof -
  let ?s = "panel_step depositWithdraw_initial (AddressChange ''3QFwygJ5eo'')"
  have r: "panel_reachable ?s" by (rule panel_reachable.step [OF panel_reachable.start])
  obtain v where v: "render toUpperCase sample_trading_registry sample_panel_props ?s = Inr (Some v)"
    by (simp add: render_def Let_def panel_step_def updateAddress_def depositWithdraw_initial_def
        getButtonContent_def sample_panel_defs)
  from r v panel_never_shows_error [OF r v] show ?thesis by blast
qed


text \<open>
  Of the panel's dispatch props only \<open>onChangeAddresses\<close> writes the
  addresses, and it writes exactly its argument: \<open>onTokensDepositAddress\<close>
  and \<open>onSignMessage\<close> dispatch no action, so an address fetched from the
  server can reach the store only if the panel hands it over itself.
\<close>

theorem dw_mapDispatchToProps_addresses:
  assumes "dw_mapDispatchToProps k reply acct response c = Some (acts, effs)"
  shows "List.map_filter action_addresses acts = (case c of OnChangeAddresses as \<Rightarrow> [as] | _ \<Rightarrow> [])"
  using assms
  by (cases c)
     (auto simp: dw_mapDispatchToProps_def fetchTokensDepositAddress_def signMessage_def
      changeAddresses_def setAddresses_def Let_def List.map_filter_def split: sum.splits signReply.splits)

end
