(* ===== verification/HexString.thy ===== *)
theory HexString
  imports Prelude "HOL-Library.Word" "HOL-Library.While_Combinator"
begin

text \<open>
  \<open>utf8ToHex\<close> of \<open>src/src/util/hex_string.ts\<close>, the hex encoding of a
  message for signing. The npm \<open>utf8\<close> package the code calls turns the
  input into a string of byte-valued characters; it is a parameter
  \<open>utf8_encode\<close> yielding bytes (\<open>8 word\<close>). The two regular-expression
  replacements strip leading and, between the two reversals, trailing NUL
  characters; the loop appends \<open>code.toString(16)\<close> of each byte, padded to
  two digits. Because a byte is below 256, the padding always yields exactly
  two digits, which makes the encoding decodable.
\<close>

type_synonym byte = "8 word"

section \<open>Operations\<close>

text \<open>The digits of \<open>Number.prototype.toString(16)\<close>, lower case.\<close>

definition hex_chars :: string where
  "hex_chars = ''0123456789abcdef''"

definition hexdigit :: "nat \<Rightarrow> char" where
  "hexdigit k = hex_chars ! k"

text \<open>The digit values, used by the decoder below.\<close>

definition hexval :: "char \<Rightarrow> nat" where
  "hexval c = (let n = (of_char c :: nat) in if 48 \<le> n \<and> n \<le> 57 then n - 48 else if 97 \<le> n \<and> n \<le> 102 then n - 87 else 0)"

text \<open>\<open>n.toString(16)\<close> for a non-negative integer.\<close>

function toString16 :: "nat \<Rightarrow> string" where
  "toString16 n = (if n < 16 then [hexdigit n] else toString16 (n div 16) @ [hexdigit (n mod 16)])"
  by auto
termination by (relation "measure id") auto

text \<open>\<open>n.length < 2 ? '0' + n : n\<close>.\<close>

definition pad2 :: "string \<Rightarrow> string" where
  "pad2 n = (if length n < 2 then CHR ''0'' # n else n)"

text \<open>\<open>str.replace(/^(?:\\u0000)*/, '')\<close>.\<close>

definition strip_leading_nul :: "byte list \<Rightarrow> byte list" where
  "strip_leading_nul bs = dropWhile (\<lambda>b. b = 0) bs"

text \<open>Lines 7--10: strip, reverse, strip, reverse.\<close>

definition strip_nuls :: "byte list \<Rightarrow> byte list" where
  "strip_nuls bs = rev (strip_leading_nul (rev (strip_leading_nul bs)))"

text \<open>
  The \<open>for\<close> loop of lines 12--16 over the state \<open>(i, hex)\<close>: the body appends
  the padded digits of \<open>str.charCodeAt(i)\<close> and increments \<open>i\<close>; the loop runs
  while \<open>i < str.length\<close>, from \<open>(0, '')\<close>.
\<close>

definition hex_for_body :: "byte list \<Rightarrow> nat \<times> string \<Rightarrow> nat \<times> string" where
  "hex_for_body str = (\<lambda>(i, hex). (Suc i, hex @ pad2 (toString16 (unat (str ! i)))))"

definition hex_for :: "byte list \<Rightarrow> (nat \<times> string) option" where
  "hex_for str = while_option (\<lambda>(i, hex). i < length str) (hex_for_body str) (0, [])"

definition utf8ToHex :: "('s \<Rightarrow> byte list) \<Rightarrow> 's \<Rightarrow> string" where
  "utf8ToHex utf8_encode str = ''0x'' @ snd (the (hex_for (strip_nuls (utf8_encode str))))"

section \<open>Reference encoding and decoder\<close>

definition byte_hex :: "byte \<Rightarrow> string" where
  "byte_hex b = [hexdigit (unat b div 16), hexdigit (unat b mod 16)]"

fun hex_decode :: "string \<Rightarrow> byte list" where
  "hex_decode (hi # lo # rest) = of_nat (16 * hexval hi + hexval lo) # hex_decode rest"
| "hex_decode _ = []"

section \<open>Properties\<close>

declare toString16.simps [simp del]

lemma hexval_hexdigit: "k < 16 \<Longrightarrow> hexval (hexdigit k) = k"
  by (auto simp: less_Suc_eq numeral_eq_Suc hexdigit_def hex_chars_def hexval_def)

lemma hexdigit_set: "k < 16 \<Longrightarrow> hexdigit k \<in> set hex_chars"
  unfolding hexdigit_def by (rule nth_mem) (simp add: hex_chars_def)

lemma unat_byte_lt: "unat (b::byte) < 256"
  using unsigned_less [of b] by simp

lemma pad2_toString16: "n < 256 \<Longrightarrow> pad2 (toString16 n) = [hexdigit (n div 16), hexdigit (n mod 16)]"
proof (cases "n < 16")
  case True
  then show ?thesis by (simp add: toString16.simps pad2_def hexdigit_def hex_chars_def)
next
  case False
  moreover assume "n < 256"
  ultimately have "n div 16 < 16" by simp
  with False show ?thesis by (simp add: toString16.simps [of n] toString16.simps [of "n div 16"] pad2_def)
qed

lemma pad2_byte: "pad2 (toString16 (unat b)) = byte_hex b"
  using pad2_toString16 [OF unat_byte_lt] by (simp add: byte_hex_def)

lemma hex_for_from:
  assumes "n = length str - i" and "i \<le> length str"
  shows "while_option (\<lambda>(i, hex). i < length str) (hex_for_body str) (i, hex)
           = Some (length str, hex @ concat (map byte_hex (drop i str)))"
  using assms
proof (induction n arbitrary: i hex)
  case 0
  then show ?case by (simp add: while_option_unfold [of _ _ "(i, hex)"])
next
  case (Suc n)
  then have i: "i < length str" by simp
  then have "drop i str = str ! i # drop (Suc i) str" by (rule Cons_nth_drop_Suc [symmetric])
  with Suc.IH [of "Suc i" "hex @ byte_hex (str ! i)"] Suc.prems i show ?case
    by (simp add: while_option_unfold [of _ _ "(i, hex)"] hex_for_body_def pad2_byte)
qed

lemma utf8ToHex_concat: "utf8ToHex enc s = ''0x'' @ concat (map byte_hex (strip_nuls (enc s)))"
  using hex_for_from [of "length (strip_nuls (enc s))" "strip_nuls (enc s)" 0 "[]"]
  by (simp add: utf8ToHex_def hex_for_def)

lemma hex_decode_concat: "hex_decode (concat (map byte_hex bs)) = bs"
proof (induction bs)
  case Nil
  then show ?case by simp
next
  case (Cons b bs)
  have "unat b div 16 < 16" using unat_byte_lt [of b] by simp
  then have "16 * hexval (hexdigit (unat b div 16)) + hexval (hexdigit (unat b mod 16)) = unat b"
    by (simp add: hexval_hexdigit)
  with Cons show ?case by (simp add: byte_hex_def)
qed

text \<open>
  (C33) Decoding the digits after \<open>0x\<close> two by two gives back the encoded
  bytes with their leading and trailing NULs removed.
\<close>

theorem utf8ToHex_roundtrip: "hex_decode (drop 2 (utf8ToHex enc s)) = strip_nuls (enc s)"
  by (simp add: utf8ToHex_concat hex_decode_concat)

text \<open>
  (C34) The result is \<open>0x\<close> followed by exactly two lower-case hex digits per
  byte that survives the stripping.
\<close>

theorem utf8ToHex_length:
  "length (utf8ToHex enc s) = 2 + 2 * length (strip_nuls (enc s))
   \<and> set (drop 2 (utf8ToHex enc s)) \<subseteq> set hex_chars"
proof -
  have len: "length (byte_hex b) = 2" for b by (simp add: byte_hex_def)
  have "length (concat (map byte_hex bs)) = 2 * length bs" for bs
    by (induction bs) (simp_all add: len)
  moreover have "set (concat (map byte_hex bs)) \<subseteq> set hex_chars" for bs
  proof -
    have "set (byte_hex b) \<subseteq> set hex_chars" for b
      using hexdigit_set [of "unat b div 16"] hexdigit_set [of "unat b mod 16"] unat_byte_lt [of b]
      by (simp add: byte_hex_def)
    then show ?thesis by auto
  qed
  ultimately show ?thesis by (simp add: utf8ToHex_concat)
qed

text \<open>
  (C35) The \<open>for\<close> loop always stops: started on any byte string it returns
  after exactly one iteration per byte, with the two-digit encoding of every
  byte in order.
\<close>

theorem hex_for_terminates: "hex_for str = Some (length str, concat (map byte_hex str))"
  using hex_for_from [of "length str" str 0 "[]"] by (simp add: hex_for_def)

lemma strip_leading_nul_decomp: "\<exists>i. bs = replicate i 0 @ strip_leading_nul bs"
proof (induction bs)
  case Nil then show ?case by (simp add: strip_leading_nul_def)
next
  case (Cons b bs)
  then obtain i where "bs = replicate i 0 @ strip_leading_nul bs" by blast
  then show ?case
    by (cases "b = 0") (auto simp: strip_leading_nul_def intro: exI [of _ "Suc i"] exI [of _ 0])
qed

lemma strip_leading_nul_hd: "strip_leading_nul bs \<noteq> [] \<Longrightarrow> hd (strip_leading_nul bs) \<noteq> 0"
  unfolding strip_leading_nul_def by (induction bs) auto

lemma strip_nuls_decomp: "\<exists>i j. bs = replicate i 0 @ strip_nuls bs @ replicate j 0"
proof -
  obtain i where i: "bs = replicate i 0 @ strip_leading_nul bs"
    using strip_leading_nul_decomp by blast
  obtain j where j: "rev (strip_leading_nul bs) = replicate j 0 @ strip_leading_nul (rev (strip_leading_nul bs))"
    using strip_leading_nul_decomp by blast
  have "strip_leading_nul bs = strip_nuls bs @ replicate j 0"
    using arg_cong [OF j, of rev] by (simp add: strip_nuls_def)
  with i show ?thesis by metis
qed

text \<open>
  The two replacements remove exactly the leading and trailing NUL bytes:
  the input is some NULs, the result, and some NULs, and a non-empty result
  neither starts nor ends with NUL.
\<close>

theorem strip_nuls_spec:
  "(\<exists>i j. bs = replicate i 0 @ strip_nuls bs @ replicate j 0)
   \<and> (strip_nuls bs \<noteq> [] \<longrightarrow> hd (strip_nuls bs) \<noteq> 0 \<and> last (strip_nuls bs) \<noteq> 0)"
proof (intro conjI impI)
  show "\<exists>i j. bs = replicate i 0 @ strip_nuls bs @ replicate j 0" by (rule strip_nuls_decomp)
next
  assume ne: "strip_nuls bs \<noteq> []"
  let ?c = "strip_leading_nul bs"
  obtain j where j: "rev ?c = replicate j 0 @ strip_leading_nul (rev ?c)"
    using strip_leading_nul_decomp by blast
  have c: "?c = strip_nuls bs @ replicate j 0"
    using arg_cong [OF j, of rev] by (simp add: strip_nuls_def)
  with ne have "?c \<noteq> []" by simp
  then have "hd ?c \<noteq> 0" by (rule strip_leading_nul_hd)
  with c ne show "hd (strip_nuls bs) \<noteq> 0" by simp
  from ne have "strip_leading_nul (rev ?c) \<noteq> []" by (simp add: strip_nuls_def)
  then have "hd (strip_leading_nul (rev ?c)) \<noteq> 0" by (rule strip_leading_nul_hd)
  with ne show "last (strip_nuls bs) \<noteq> 0" by (simp add: strip_nuls_def hd_rev last_rev)
qed

lemma strip_nuls_sample: "strip_nuls [0, 97, 0, 98, 0, 0] = [97, 0, 98::byte]"
  by (simp add: strip_nuls_def strip_leading_nul_def)

theorem strip_nuls_spec_witness:
  "strip_nuls [0, 97, 0, 98, 0, 0] = [97, 0, 98::byte]
   \<and> hd (strip_nuls [0, 97, 0, 98, 0, 0 :: byte]) \<noteq> 0
   \<and> last (strip_nuls [0, 97, 0, 98, 0, 0 :: byte]) \<noteq> 0"
  using strip_nuls_spec [of "[0, 97, 0, 98, 0, 0 :: byte]"] strip_nuls_sample by simp

lemma utf8ToHex_sample: "utf8ToHex id [0, 97, 98, 99, 0] = ''0x616263''"
proof -
  have "strip_nuls [0, 97, 98, 99, 0] = [97, 98, 99::byte]"
    by (simp add: strip_nuls_def strip_leading_nul_def)
  then show ?thesis
    by (simp add: utf8ToHex_concat byte_hex_def hexdigit_def hex_chars_def)
qed

end
