(* ===== verification/Collectibles.thy ===== *)
theory Collectibles
  imports Prelude
begin

text \<open>
  The grid of \<open>MyCollectibles.render\<close> in \<open>src/src/erc721/pages/my_collectibles.tsx\<close>:
  each collectible becomes a \<open>CollectibleAsset\<close> element and the elements are
  grouped into columns of \<open>groupSize = 2\<close> by a \<open>reduce\<close> over the
  element list. An element is modelled by the props it is given.
\<close>

section \<open>Data\<close>

text \<open>The four fields of \<open>Collectible\<close> (\<open>util/types.ts\<close>) that the page reads.\<close>

record collectible =
  c_name :: string
  c_price :: "int option"
  c_image :: string
  c_color :: string

record collectibleAsset =
  asset_name :: string
  asset_price :: "int option"
  asset_image :: string
  asset_color :: string

section \<open>Operations\<close>

text \<open>\<open>myCollectibles.map(...)\<close>: one \<open>CollectibleAsset\<close> per item.\<close>

definition collectible_row :: "collectible \<Rightarrow> collectibleAsset" where
  "collectible_row c =
     \<lparr>asset_name = c_name c, asset_price = c_price c, asset_image = c_image c, asset_color = c_color c\<rparr>"

text \<open>
  One call of the \<open>reduce\<close> callback on \<open>(item, index)\<close>. The accumulator
  \<open>row\<close> is a JavaScript array whose entries may be holes (\<open>js_set\<close>):
  \<open>chunkIndex = Math.floor(index / groupSize)\<close>; when \<open>row[chunkIndex]\<close> is
  falsy (a hole or past the end, hence \<open>undefined\<close>) it is set to \<open>[]\<close>;
  then the item is pushed onto it. \<open>groupSize\<close> is the positive literal 2.
\<close>

definition chunk_step :: "nat \<Rightarrow> 'a list option list \<Rightarrow> 'a \<times> nat \<Rightarrow> 'a list option list" where
  "chunk_step groupSize row im =
     (let item = fst im; chunkIndex = snd im div groupSize;
          row1 = (if chunkIndex < length row \<and> row ! chunkIndex \<noteq> None then row
                  else js_set row chunkIndex (Some []))
      in js_set row1 chunkIndex (map_option (\<lambda>items. items @ [item]) (row1 ! chunkIndex)))"

text \<open>\<open>rows.reduce(callback, [])\<close>: the callback sees each item with its index.\<close>

definition groupRows :: "nat \<Rightarrow> 'a list \<Rightarrow> 'a list option list" where
  "groupRows groupSize rows = foldl (chunk_step groupSize) [] (zip rows [0..<length rows])"

text \<open>
  The columns rendered: \<open>rowsReduced.map\<close> calls its callback on the
  entries that are not holes, one \<open>ColumnMyCollectibles\<close> each.
\<close>

definition myCollectibles_render :: "collectible list \<Rightarrow> collectibleAsset list list" where
  "myCollectibles_render myCollectibles = List.map_filter id (groupRows 2 (map collectible_row myCollectibles))"

section \<open>Reference grouping\<close>

fun pairs :: "'a list \<Rightarrow> 'a list list" where
  "pairs [] = []"
| "pairs [x] = [[x]]"
| "pairs (x # y # zs) = [x, y] # pairs zs"

definition sample_collectible :: collectible where
  "sample_collectible = \<lparr>c_name = ''Kitty'', c_price = Some 5, c_image = ''k.png'', c_color = ''#fff''\<rparr>"

section \<open>Properties\<close>

lemma chunk_step_new:
  assumes "i div 2 = length acc"
  shows "chunk_step 2 acc (x, i) = acc @ [Some [x]]"
  using assms by (simp add: chunk_step_def Let_def js_set_end js_set_inside nth_append)

lemma chunk_step_second:
  assumes "i div 2 = length acc" and "even i"
  shows "chunk_step 2 (acc @ [Some [x]]) (y, Suc i) = acc @ [Some [x, y]]"
proof -
  from assms have "Suc i div 2 = length acc" by presburger
  then show ?thesis by (simp add: chunk_step_def Let_def js_set_inside list_update_append nth_append)
qed

lemma groupRows_from:
  "even i \<Longrightarrow> i div 2 = length acc \<Longrightarrow>
   foldl (chunk_step 2) acc (zip xs [i..<i + length xs]) = acc @ map Some (pairs xs)"
proof (induction xs arbitrary: acc i rule: pairs.induct)
  case 1
  then show ?case by simp
next
  case (2 x)
  then show ?case by (simp add: chunk_step_new)
next
  case (3 x y zs)
  have u: "[i..<i + length (x # y # zs)] = i # Suc i # [Suc (Suc i)..<Suc (Suc i) + length zs]"
    by (simp add: upt_conv_Cons del: upt_Suc)
  have "foldl (chunk_step 2) acc (zip (x # y # zs) [i..<i + length (x # y # zs)])
        = foldl (chunk_step 2) (chunk_step 2 (chunk_step 2 acc (x, i)) (y, Suc i))
            (zip zs [Suc (Suc i)..<Suc (Suc i) + length zs])"
    by (simp only: u zip_Cons_Cons foldl_Cons)
  also have "\<dots> = foldl (chunk_step 2) (acc @ [Some [x, y]]) (zip zs [Suc (Suc i)..<Suc (Suc i) + length zs])"
    using "3.prems" by (simp add: chunk_step_new chunk_step_second)
  also have "\<dots> = (acc @ [Some [x, y]]) @ map Some (pairs zs)"
    using "3.prems" by (intro "3.IH") simp_all
  finally show ?case by simp
qed

text \<open>
  (C36) The \<open>reduce\<close> with \<open>groupSize = 2\<close> computes the reference grouping into
  consecutive pairs, the last group a singleton for an odd count; in
  particular the callback never indexes past the end of the array it builds.
\<close>

theorem groupRows_pairs: "groupRows 2 xs = map Some (pairs xs)"
  using groupRows_from [of 0 "[]" xs] by (simp add: groupRows_def)

text \<open>
  The shape of the accumulator after the items with indices below \<open>k\<close>:
  \<open>ceil (k / groupSize)\<close> entries and no hole. Each step indexes either the last
  entry or the one just past the end.
\<close>

lemma ceil_div_bounds:
  assumes "0 < (g::nat)"
  shows "k div g \<le> (k + g - 1) div g" and "(k + g - 1) div g \<le> k div g + 1"
    and "(Suc k + g - 1) div g = k div g + 1"
proof -
  have "k \<le> k + g - 1" using assms by simp
  then show "k div g \<le> (k + g - 1) div g" by (rule div_le_mono)
  have "(k + g - 1) div g \<le> (k + g) div g" by (rule div_le_mono) simp
  then show "(k + g - 1) div g \<le> k div g + 1" using assms by (simp add: div_add_self2)
  show "(Suc k + g - 1) div g = k div g + 1" using assms by (simp add: div_add_self2)
qed

lemma chunk_step_inside:
  assumes "k div g < length row" and "row ! (k div g) = Some items"
  shows "chunk_step g row (x, k) = row[k div g := Some (items @ [x])]"
  using assms by (simp add: chunk_step_def Let_def js_set_inside)

lemma chunk_step_past:
  assumes "k div g = length row"
  shows "chunk_step g row (x, k) = row @ [Some [x]]"
proof -
  have "js_set row (k div g) (Some []) = row @ [Some []]" using assms by (simp add: js_set_end)
  with assms show ?thesis by (simp add: chunk_step_def Let_def js_set_inside nth_append)
qed

lemma chunk_step_shape:
  assumes g: "0 < g" and len: "length row = (k + g - 1) div g" and nh: "None \<notin> set row"
  shows "length (chunk_step g row (x, k)) = (Suc k + g - 1) div g \<and> None \<notin> set (chunk_step g row (x, k))"
proof (cases "k div g < length row")
  case True
  then obtain items where items: "row ! (k div g) = Some items"
    using nh nth_mem by (cases "row ! (k div g)") fastforce+
  have "length row = k div g + 1"
    using True ceil_div_bounds(2) [OF g, of k] len by simp
  then have "length (chunk_step g row (x, k)) = (Suc k + g - 1) div g"
    using chunk_step_inside [OF True items] ceil_div_bounds(3) [OF g, of k] by simp
  moreover have "None \<notin> set (chunk_step g row (x, k))"
    using chunk_step_inside [OF True items] nh by (auto dest: set_update_subset_insert [THEN subsetD])
  ultimately show ?thesis ..
next
  case False
  then have "k div g = length row" using ceil_div_bounds(1) [OF g, of k] len by simp
  then show ?thesis using chunk_step_past [of k g row x] nh ceil_div_bounds(3) [OF g, of k] by simp
qed

lemma groupRows_shape_from:
  "0 < g \<Longrightarrow> length row = (k + g - 1) div g \<Longrightarrow> None \<notin> set row \<Longrightarrow>
   length (foldl (chunk_step g) row (zip xs [k..<k + length xs])) = (k + length xs + g - 1) div g
   \<and> None \<notin> set (foldl (chunk_step g) row (zip xs [k..<k + length xs]))"
proof (induction xs arbitrary: row k)
  case Nil
  then show ?case by simp
next
  case (Cons x xs)
  have z: "zip (x # xs) [k..<k + length (x # xs)] = (x, k) # zip xs [Suc k..<Suc k + length xs]"
    by (simp add: upt_conv_Cons del: upt_Suc)
  from chunk_step_shape [OF Cons.prems] have "length (chunk_step g row (x, k)) = (Suc k + g - 1) div g"
    and "None \<notin> set (chunk_step g row (x, k))" by simp_all
  from Cons.IH [OF Cons.prems(1) this] show ?case unfolding z foldl_Cons by (simp del: upt_Suc)
qed

text \<open>
  (C37) The array the \<open>reduce\<close> returns has its declared type \<open>any[][]\<close> for
  every positive group size: it has no hole (every entry is an array) and has
  \<open>ceil (n / groupSize)\<close> entries.
\<close>

theorem groupRows_no_holes:
  assumes "0 < groupSize"
  shows "None \<notin> set (groupRows groupSize rows)
         \<and> length (groupRows groupSize rows) = (length rows + groupSize - 1) div groupSize"
  using groupRows_shape_from [OF assms, of "[]" 0 rows] assms by (simp add: groupRows_def)

theorem groupRows_no_holes_witness:
  "(0::nat) < 3 \<and> groupRows 3 [''a'', ''b'', ''c'', ''d''] = [Some [''a'', ''b'', ''c''], Some [''d'']]
   \<and> None \<notin> set (groupRows 3 [''a'', ''b'', ''c'', ''d''])
   \<and> length (groupRows 3 [''a'', ''b'', ''c'', ''d'']) = (4 + 3 - 1) div 3"
proof -
  have "groupRows 3 [''a'', ''b'', ''c'', ''d''] = [Some [''a'', ''b'', ''c''], Some [''d'']]"
    by code_simp
  with groupRows_no_holes [of 3 "[''a'', ''b'', ''c'', ''d'']"] show ?thesis by simp
qed

lemma concat_pairs: "concat (pairs xs) = xs"
  by (induction xs rule: pairs.induct) simp_all

lemma pairs_sizes: "g \<in> set (pairs xs) \<Longrightarrow> 1 \<le> length g \<and> length g \<le> 2"
  by (induction xs rule: pairs.induct) auto

lemma length_pairs: "length (pairs xs) = (length xs + 1) div 2"
  by (induction xs rule: pairs.induct) simp_all

lemma butlast_pairs: "g \<in> set (butlast (pairs xs)) \<Longrightarrow> length g = 2"
  by (induction xs rule: pairs.induct) (auto split: if_splits)

text \<open>
  The page shows every collectible exactly once and in order, in
  \<open>(n + 1) div 2\<close> columns of two, the last column of one or two.
\<close>

theorem myCollectibles_layout:
  "concat (myCollectibles_render cs) = map collectible_row cs
   \<and> length (myCollectibles_render cs) = (length cs + 1) div 2
   \<and> (\<forall>g \<in> set (butlast (myCollectibles_render cs)). length g = 2)
   \<and> (\<forall>g \<in> set (myCollectibles_render cs). 1 \<le> length g \<and> length g \<le> 2)"
  using pairs_sizes [of _ "map collectible_row cs"] butlast_pairs [of _ "map collectible_row cs"]
    groupRows_from [of 0 "[]" "map collectible_row cs"]
  by (simp add: myCollectibles_render_def groupRows_def concat_pairs length_pairs)

theorem myCollectibles_layout_witness:
  "concat (myCollectibles_render [sample_collectible, sample_collectible, sample_collectible])
     = map collectible_row [sample_collectible, sample_collectible, sample_collectible]
   \<and> map length (myCollectibles_render [sample_collectible, sample_collectible, sample_collectible]) = [2, 1]"
proof -
  have "myCollectibles_render [sample_collectible, sample_collectible, sample_collectible]
          = [[collectible_row sample_collectible, collectible_row sample_collectible],
             [collectible_row sample_collectible]]"
    using groupRows_from [of 0 "[]" "map collectible_row [sample_collectible, sample_collectible, sample_collectible]"]
    by (simp add: myCollectibles_render_def groupRows_def)
  with myCollectibles_layout [of "[sample_collectible, sample_collectible, sample_collectible]"]
  show ?thesis by simp
qed

end
