(* ===== verification/OrderHistory.thy ===== *)
theory OrderHistory
  imports Prelude
begin

text \<open>
  The order table of \<open>src/src/components/steady/exchange/deposit_transaction.tsx\<close>.
  In this revision \<open>render\<close> computes \<open>ordersToShow\<close> but does not use it: the
  table body is thirty copies of the row \<open>TxToRow\<close> builds from constants. The
  commented-out per-state switch is not live code. \<open>orderToRow\<close>, whose only call
  sits in that switch, is modelled with the labels it computes; its amounts
  and price go through library formatting (\<open>tokenAmountInUnits\<close>,
  \<open>toFixed\<close>) and, like the labels, never reach the row it returns.
  Orders are of any type; \<open>isFillable\<close> stands for
  \<open>order.status === OrderStatus.Fillable\<close>.
\<close>

section \<open>Data\<close>

record txRow =
  tx_address :: string
  tx_amount :: string
  tx_status :: string

datatype orderSide = Buy | Sell

text \<open>
  The fields of \<open>UIOrder\<close> that \<open>orderToRow\<close> reads without library
  formatting: the side, and the status, a value of the numeric 0x
  \<open>OrderStatus\<close> enum or \<open>undefined\<close>.
\<close>

record uiOrder =
  o_side :: orderSide
  o_status :: "nat option"

section \<open>Operations\<close>

text \<open>\<open>SideTD\<close>: green for a buy, red otherwise.\<close>

definition SideTD_css :: "orderSide \<Rightarrow> string" where
  "SideTD_css side = (if side = Buy then ''color: green;'' else ''color: red;'')"

definition orderToRow_sideLabel :: "uiOrder \<Rightarrow> string" where
  "orderToRow_sideLabel order = (if o_side order = Sell then ''Sell'' else ''Buy'')"

text \<open>
  The status label of \<open>orderToRow\<close>: \<open>'--'\<close> unless \<open>order.status\<close> is truthy
  (the enum value 0 is falsy), then \<open>'Open'\<close> for \<open>OrderStatus.Fillable\<close>
  (the value \<open>fillable\<close>) and \<open>'Filled'\<close> for any other status.
\<close>

definition orderToRow_status :: "nat \<Rightarrow> uiOrder \<Rightarrow> string" where
  "orderToRow_status fillable order =
     (case o_status order of
        None \<Rightarrow> ''--''
      | Some st \<Rightarrow> (if st = 0 then ''--'' else if st = fillable then ''Open'' else ''Filled''))"

text \<open>The cells of the row \<open>orderToRow\<close> returns: constants, whatever the order.\<close>

definition orderToRow :: "uiOrder \<Rightarrow> nat \<Rightarrow> string list" where
  "orderToRow order index = [''Deposit'', ''3QFwygJ5eoTATuVUENdJbELboP72XEifyw'', ''2017-03-34'', ''--'']"


definition TxToRow :: "nat \<Rightarrow> txRow" where
  "TxToRow index =
     \<lparr>tx_address = ''3QFwygJ5eoTATuVUENdJbELboP72XEifyw'', tx_amount = ''0.01 (BTC)'', tx_status = ''--''\<rparr>"

definition ordersToShow :: "('o \<Rightarrow> bool) \<Rightarrow> 'o list \<Rightarrow> 'o list" where
  "ordersToShow isFillable orders = filter isFillable orders"

text \<open>The literal array \<open>[1,2,3,4,5, ...]\<close> of thirty numbers, mapped by index.\<close>

definition stub_array :: "nat list" where
  "stub_array = concat (replicate 6 [1, 2, 3, 4, 5])"

definition orderHistory_rows :: "('o \<Rightarrow> bool) \<Rightarrow> 'o list \<Rightarrow> txRow list" where
  "orderHistory_rows isFillable orders =
     (let shown = ordersToShow isFillable orders in
      map (\<lambda>(order, index). TxToRow index) (zip stub_array [0..<length stub_array]))"

section \<open>Properties\<close>

text \<open>
  The order table ignores the user's orders: whatever the store holds,
  it shows thirty identical placeholder rows.
\<close>

theorem orderHistory_rows_stub:
  "orderHistory_rows isFillable orders = replicate 30 (TxToRow 0)"
proof -
  have "length stub_array = 30" by (simp add: stub_array_def numeral_eq_Suc)
  moreover have "map (\<lambda>(order, index). TxToRow index) (zip xs ys) = replicate (min (length xs) (length ys)) (TxToRow 0)"
    for xs :: "nat list" and ys :: "nat list"
    by (induction xs arbitrary: ys) (auto simp: TxToRow_def zip_Cons1 split: list.splits)
  ultimately show ?thesis by (simp add: orderHistory_rows_def)
qed

end
