(* ===== verification/AppShell.thy ===== *)
theory AppShell
  imports Prelude
begin

text \<open>
  The shell of the steady application: \<open>SteadyApp\<close> of
  \<open>src/src/components/steady/steady_app.tsx\<close>, which wraps the pages in the
  theme provider and the general layout and routes the base path to the
  exchange page, and \<open>Exchange\<close> of
  \<open>src/src/components/steady/pages/exchange.tsx\<close>, which places the
  containers in two columns. Both only compose components; what is modelled is
  which component appears where. The path matching of \<open>react-router\<close>
  (\<open>exact\<close> routes) is a library function the code only configures, so it is a
  parameter \<open>matches pattern location\<close>.
\<close>

section \<open>Data\<close>

text \<open>The containers the exchange page mounts.\<close>

datatype exchangeChild =
    WalletBalanceContainer
  | DepositWithdrawContainer
  | OrderHistoryContainer
  | CheckMetamaskStateModalContainer

datatype exchangeSlot = ColumnNarrow | ColumnWide | PageLevel

datatype steadyPage = ExchangePage

text \<open>What \<open>SteadyApp\<close> renders inside \<open>GeneralLayout\<close>, whose toolbar is \<open>ToolbarContentContainer\<close>.\<close>

record steadyAppView =
  sa_theme :: string
  sa_toolbar :: string
  sa_adBlockDetector :: bool
  sa_page :: "steadyPage option"

type_synonym route_matcher = "string \<Rightarrow> string \<Rightarrow> bool"

section \<open>Operations\<close>

text \<open>\<open>Exchange.render\<close>: each container with the slot it is placed in, in order.\<close>

definition Exchange_render :: "(exchangeSlot \<times> exchangeChild) list" where
  "Exchange_render =
     [(ColumnNarrow, WalletBalanceContainer), (ColumnNarrow, DepositWithdrawContainer),
      (ColumnWide, OrderHistoryContainer), (PageLevel, CheckMetamaskStateModalContainer)]"

text \<open>
  The \<open>Switch\<close> with its single exact route: the exchange page when the
  location matches \<open>STEADY_APP_BASE_PATH/\<close>, nothing otherwise.
\<close>

definition steadyApp_switch :: "route_matcher \<Rightarrow> string \<Rightarrow> string \<Rightarrow> steadyPage option" where
  "steadyApp_switch matches base location =
     (if matches (base @ ''/'') location then Some ExchangePage else None)"

definition SteadyApp :: "route_matcher \<Rightarrow> string \<Rightarrow> string \<Rightarrow> steadyAppView" where
  "SteadyApp matches base location =
     \<lparr>sa_theme = ''ERC20'', sa_toolbar = ''ToolbarContentContainer'', sa_adBlockDetector = True,
      sa_page = steadyApp_switch matches base location\<rparr>"

text \<open>The containers of the page a location shows.\<close>

definition steadyApp_containers :: "route_matcher \<Rightarrow> string \<Rightarrow> string \<Rightarrow> exchangeChild list" where
  "steadyApp_containers matches base location =
     (case sa_page (SteadyApp matches base location) of
        None \<Rightarrow> []
      | Some ExchangePage \<Rightarrow> map snd Exchange_render)"

section \<open>Lemmas\<close>

lemma Exchange_render_panel_once:
  "filter (\<lambda>c. c = DepositWithdrawContainer) (map snd Exchange_render) = [DepositWithdrawContainer]"
  "filter (\<lambda>c. c = OrderHistoryContainer) (map snd Exchange_render) = [OrderHistoryContainer]"
  by (simp_all add: Exchange_render_def)

lemma steadyApp_containers_panel:
  "DepositWithdrawContainer \<in> set (steadyApp_containers matches base location)
   \<longleftrightarrow> matches (base @ ''/'') location"
  by (simp add: steadyApp_containers_def SteadyApp_def steadyApp_switch_def Exchange_render_def)

end
