(* ===== verification/ExchangePage.thy ===== *)
theory ExchangePage
  imports DepositWithdraw AppShell
begin

text \<open>
  The exchange page of \<open>src/src/components/steady/pages/exchange.tsx\<close> as one
  system: the steady store slice, the token selector the panel renders (with
  the props of \<open>depositWithdraw_dropdownProps\<close>) and the panel's own state.
  An event is a DOM event on the selector, a click on one of its rows, a
  handler of the panel (a submit dispatches the actions its run returns to the
  store), or the completion of a \<open>fetchDepositAddress\<close> thunk, should any code
  dispatch it. The wallet's state, whether \<open>window.web3\<close> exists and the
  account are free at every step. No other code under \<open>src/\<close> dispatches to the
  steady slice: \<open>changeAddresses\<close> is reachable only through the panel's
  \<open>onChangeAddresses\<close> prop, which the panel never calls.
\<close>

section \<open>Data\<close>

record pageState =
  pg_app :: steadyApp
  pg_panel :: depositWithdrawState

datatype pageEvent =
    PgSelector domEvent
  | PgRow nat
  | PgPanel panelEvent
  | PgFetchAddresses "error + unit"

section \<open>Operations\<close>

definition page_initial :: "knownTokens \<Rightarrow> pageState" where
  "page_initial kt = \<lparr>pg_app = steadyApp_initial kt, pg_panel = depositWithdraw_initial\<rparr>"

definition page_step ::
    "app_constants \<Rightarrow> knownTokens \<Rightarrow> address_validator \<Rightarrow> bool \<Rightarrow> web3State \<Rightarrow> string
     \<Rightarrow> pageState \<Rightarrow> pageEvent \<Rightarrow> pageState" where
  "page_step k kt validate web3 w acct ps ev =
     (case ev of
        PgSelector e \<Rightarrow> ps\<lparr>pg_app := app_step kt depositWithdraw_dropdownProps (pg_app ps) (SelectorDom e)\<rparr>
      | PgRow i \<Rightarrow> ps\<lparr>pg_app := app_step kt depositWithdraw_dropdownProps (pg_app ps) (RowClick i)\<rparr>
      | PgPanel e \<Rightarrow>
          (let store = app_store (pg_app ps);
               acts = (if e = ClickSubmit
                       then tr_actions (submit k validate web3 (mapStateToProps w store) (pg_panel ps)) else [])
           in ps\<lparr>pg_app := (pg_app ps)\<lparr>app_store := dispatch_all (initialSteadyState kt) store acts\<rparr>,
                 pg_panel := panel_step (pg_panel ps) e\<rparr>)
      | PgFetchAddresses r \<Rightarrow>
          ps\<lparr>pg_app := (pg_app ps)\<lparr>app_store :=
               dispatch_all (initialSteadyState kt) (app_store (pg_app ps)) (tr_actions (fetchDepositAddress k acct r))\<rparr>\<rparr>)"

inductive page_reachable :: "app_constants \<Rightarrow> knownTokens \<Rightarrow> address_validator \<Rightarrow> pageState \<Rightarrow> bool"
  for k kt validate where
  start: "page_reachable k kt validate (page_initial kt)"
| step: "page_reachable k kt validate ps \<Longrightarrow> page_reachable k kt validate (page_step k kt validate web3 w acct ps e)"

text \<open>The addresses the store can hold on this page: \<open>null\<close> or the empty list.\<close>

definition no_known_address :: "addressEntry list option \<Rightarrow> bool" where
  "no_known_address as \<longleftrightarrow> as = None \<or> as = Some []"

section \<open>Lemmas\<close>

lemma submit_no_actions: "tr_actions (submit k validate web3 p s) = []"
  by (auto simp: submit_def withdraw_def split: option.splits prod.splits)

lemma page_reachable_parts:
  assumes "page_reachable k kt validate ps"
  shows "app_reachable kt depositWithdraw_dropdownProps (pg_app ps) \<and> panel_reachable (pg_panel ps)
         \<and> no_known_address (addresses (app_store (pg_app ps)))"
  using assms
proof (induction rule: page_reachable.induct)
  case start
  show ?case
    using app_reachable.start [of kt depositWithdraw_dropdownProps]
    by (simp add: page_initial_def panel_reachable.start no_known_address_def
        steadyApp_initial_def initialSteadyState_def)
next
  case (step ps web3 w acct e)
  then have app: "app_reachable kt depositWithdraw_dropdownProps (pg_app ps)"
    and panel: "panel_reachable (pg_panel ps)" and addr: "no_known_address (addresses (app_store (pg_app ps)))"
    by simp_all
  show ?case
  proof (cases e)
    case (PgSelector d)
    with app panel addr show ?thesis
      by (simp add: page_step_def app_reachable_step) (simp add: app_step_def)
  next
    case (PgRow i)
    have "addresses (app_store (snd (row_click depositWithdraw_dropdownProps (initialSteadyState kt) i (pg_app ps))))
          = addresses (app_store (pg_app ps))"
      by (cases "wrapperRef (app_dropdown (pg_app ps)) \<and> isOpen (app_dropdown (pg_app ps))
                 \<and> i < length (tokens (app_tokenDropdown (pg_app ps)))")
         (simp_all add: row_click_fires row_click_idle)
    with PgRow app panel addr show ?thesis
      by (simp add: page_step_def app_reachable_step) (simp add: app_step_def)
  next
    case (PgPanel pe)
    with app panel addr show ?thesis
      by (simp add: page_step_def submit_no_actions Let_def panel_reachable.step)
  next
    case (PgFetchAddresses r)
    have "app_reachable kt depositWithdraw_dropdownProps
            ((pg_app ps)\<lparr>app_store := dispatch_all (initialSteadyState kt) (app_store (pg_app ps)) [setAddresses []]\<rparr>)"
      by (rule app_reachable.fetched [OF app])
    with PgFetchAddresses app panel addr show ?thesis
      by (cases r) (simp_all add: page_step_def fetchDepositAddress_def Let_def no_known_address_def
          setAddresses_def steady_def)
  qed
qed

lemma currentTokenAddress_none_known:
  "no_known_address as \<Longrightarrow> currentTokenAddress t as = []"
  by (auto simp: no_known_address_def currentTokenAddress_def)

text \<open>
  (C30) Ordering on the page: the completion of an address fetch and a click on a
  row of the selector commute, from any state and whatever the wallet at
  either step. The fetch writes only \<open>addresses\<close> and the click only the
  selection and the dropdown, so the order in which the two arrive is
  invisible to every later render.
\<close>

theorem page_fetch_row_commute:
  "page_step k kt validate web3 w acct (page_step k kt validate web3' w' acct' ps (PgRow i)) (PgFetchAddresses r)
   = page_step k kt validate web3' w' acct' (page_step k kt validate web3 w acct ps (PgFetchAddresses r)) (PgRow i)"
  by (cases r)
     (simp_all add: page_step_def app_step_def fetchDepositAddress_def Let_def row_click_def setSelectedToken_def
      tokenDropdown_changeCurrentToken_def changeCurrentToken_def setCurrentToken_def setAddresses_def steady_def)

text \<open>
  (C29) On the exchange page the deposit address is never displayed: in every
  reachable state a render of the panel shows no QR code, no QR wrapper and no
  copy target, and its button never reads "Copy Address", because the only
  addresses that can reach the store are the empty list of
  \<open>fetchDepositAddress\<close>.
\<close>

theorem deposit_address_never_shown:
  assumes "page_reachable k kt validate ps"
    and "render disp trading (mapStateToProps w (app_store (pg_app ps))) (pg_panel ps) = Inr (Some v)"
  shows "v_qrContent v = None \<and> v_copyText v = None \<and> \<not> v_qrShown v \<and> v_btnText v \<noteq> ''Copy Address''"
proof -
  have na: "no_known_address (addresses (app_store (pg_app ps)))"
    using page_reachable_parts [OF assms(1)] by simp
  from assms(2) obtain t where t: "currentToken (app_store (pg_app ps)) = Some t"
    by (auto simp: render_def mapStateToProps_def split: option.splits)
  have "currentTokenAddress t (addresses (app_store (pg_app ps))) = []"
    by (rule currentTokenAddress_none_known [OF na])
  with assms(2) t show ?thesis
    by (auto simp: render_def mapStateToProps_def Let_def getButtonContent_def btnText_def
        split: if_splits sum.splits)
qed

theorem deposit_address_never_shown_witness:
  "page_reachable sample_constants sample_steady_registry sample_validator
     (page_step sample_constants sample_steady_registry sample_validator True Done ''0xdB25''
        (page_initial sample_steady_registry) (PgFetchAddresses (Inr ())))
   \<and> (\<exists>v. render toUpperCase sample_trading_registry
            (mapStateToProps Done (app_store (pg_app (page_step sample_constants sample_steady_registry
               sample_validator True Done ''0xdB25'' (page_initial sample_steady_registry) (PgFetchAddresses (Inr ()))))))
            (pg_panel (page_step sample_constants sample_steady_registry sample_validator True Done ''0xdB25''
               (page_initial sample_steady_registry) (PgFetchAddresses (Inr ()))))
          = Inr (Some v)
        \<and> v_qrContent v = None \<and> v_copyText v = None \<and> \<not> v_qrShown v \<and> v_btnText v \<noteq> ''Copy Address'')"
proof -
  let ?ps = "page_step sample_constants sample_steady_registry sample_validator True Done ''0xdB25''
               (page_initial sample_steady_registry) (PgFetchAddresses (Inr ()))"
  have r: "page_reachable sample_constants sample_steady_registry sample_validator ?ps"
    by (rule page_reachable.step [OF page_reachable.start])
  obtain v where v: "render toUpperCase sample_trading_registry (mapStateToProps Done (app_store (pg_app ?ps)))
                       (pg_panel ?ps) = Inr (Some v)"
    by (simp add: render_def Let_def page_step_def page_initial_def fetchDepositAddress_def setAddresses_def
        steady_def steadyApp_initial_def initialSteadyState_def getSteadyDefaultToken_def mapStateToProps_def
        getButtonContent_def depositWithdraw_initial_def sample_steady_registry_def)
  from r v deposit_address_never_shown [OF r v] show ?thesis by blast
qed

end
