(* ===== verification/Spec2Isabelle.thy ===== *)
theory Spec2Isabelle
  imports DepositWithdraw HexString Collectibles AddressInput OrderHistory AppShell ExchangePage
begin

text \<open>
  \<^bold>\<open>A verification development of the steady deposit/withdraw front-end.\<close>

  The repository is the React/Redux front-end of a token exchange. Its parts,
  as the sources under \<open>src/src\<close> have them, and how they interact: a token
  registry (\<open>util/known_tokens.ts\<close>, fed by \<open>util/token_steady_data.ts\<close>) is
  built lazily from static configuration; the steady store slice
  (\<open>store/steady/actions.ts\<close>, \<open>reducers.ts\<close>) holds the selected token and the
  resolved deposit addresses, starts from the registry's first steady token
  and is changed by two actions, dispatched by thunks that talk to the wallet
  (\<open>window.web3\<close>) and to a deposit-address HTTP service; the token selector
  (\<open>components/steady/common/token_dropdown.tsx\<close>) wraps the generic
  \<open>Dropdown\<close> (\<open>components/common/dropdown.tsx\<close>) and dispatches the
  selection; the deposit/withdraw panel
  (\<open>components/steady/exchange/deposit_withdraw.tsx\<close>, with the controlled
  \<open>components/common/address_input.tsx\<close>) reads the slice, shows a known
  deposit address or asks for a signature, and sends withdrawals through the
  ERC-777 contract; \<open>util/hex_string.ts\<close> hex-encodes messages;
  \<open>erc721/pages/my_collectibles.tsx\<close> lays collectibles out in columns;
  \<open>components/steady/exchange/deposit_transaction.tsx\<close> shows a stubbed table;
  \<open>components/steady/steady_app.tsx\<close> routes the base path to the page
  \<open>components/steady/pages/exchange.tsx\<close>, which places the panel and the
  table.

  \<^bold>\<open>Theories and what they model.\<close>
  \<^item> \<open>Prelude\<close>: the error values (one constructor per \<open>throw\<close>, with the
    message text), the external effects (signatures, HTTP requests, contract
    calls, logged errors), the module constants of \<open>common/constants.ts\<close> as a
    record parameter, JavaScript's \<open>toLowerCase\<close>/\<open>toUpperCase\<close> on ASCII,
    truthiness and \<open>||\<close>, and shared lemmas on \<open>find\<close>.
  \<^item> \<open>TokenData\<close>: \<open>TokenSteadyData\<close>, the \<open>Token\<close> literal and the two
    projections (network filter, WETH lookup); a sample configuration.
  \<^item> \<open>KnownTokens\<close>: the class \<open>KnownTokens\<close> (fields as a record, constructor
    returning \<open>error + knownTokens\<close>, every lookup method, the \<open>find\<close>
    callback of \<open>getTokenByAddress\<close> with the \<open>TypeError\<close> it throws on a
    token without an address) and the singletons
    \<open>getKnownTokens\<close>/\<open>getKnownSteadyTokens\<close> with their module variable as
    explicit state; the 0x asset-data decoder is a parameter.
  \<^item> \<open>SteadyStore\<close>: the action creators, the reducer \<open>steady\<close> (with Redux's
    \<open>undefined\<close> initial state), dispatch of action sequences, and each thunk
    as a run: dispatched actions, external calls in order, and the outcome;
    the wallet's and server's answers are parameters of a run (for
    \<open>signMessage\<close> the four things \<open>web3.personal.sign\<close> can do in the page:
    no \<open>web3\<close>, a throw, a promise, a plain value). An abstract
    specification (two last-writer-wins registers) is refined by the reducer.
  \<^item> \<open>Dropdown\<close>: \<open>isOpen\<close>, the wrapper ref and the document listener as a
    record, one definition per handler, \<open>dropdown_step\<close> routing DOM events to
    handlers, user gestures as event sequences (a click is a \<open>mousedown\<close> then
    a \<open>click\<close>), the inductive set of reachable states, and \<open>render\<close>'s body
    with the rules of its styled wrapper (placement defaults included).
  \<^item> \<open>TokenDropdown\<close>: the selector's rows and header, \<open>_setSelectedToken\<close>,
    a row click as the handlers React runs for it (document listener, row,
    bubbling to the body), \<open>render\<close> with the props it forwards to
    \<open>Dropdown\<close> and the row styles, \<open>mapStateToProps\<close>/\<open>mapDispatchToProps\<close>,
    and the composition store + dropdown + selector as an inductive
    reachability predicate with a matching event step \<open>app_step\<close>.
  \<^item> \<open>DepositWithdraw\<close>: the panel's state and handlers with the reachable
    states of the handler events, the address lookup, \<open>render\<close> as a view
    (tabs with every rule of the styled \<open>TabButton\<close>, \<open>:first-child\<close> and
    \<open>:last-child\<close> included, button, QR code, the inputs of
    \<open>getInputContent\<close>, error card) or an error, \<open>submit\<close>/\<open>withdraw\<close> as
    wallet calls, and \<open>mapDispatchToProps\<close> as the thunk each dispatch prop
    runs;
    \<open>WAValidator\<close> and \<open>tokenSymbolToDisplayString\<close> are parameters.
  \<^item> \<open>HexString\<close>: \<open>utf8ToHex\<close> on bytes (\<open>8 word\<close>), its \<open>for\<close> loop kept as a
    \<open>while_option\<close> loop over \<open>(i, hex)\<close>, with a reference encoding and a
    decoder; the npm \<open>utf8\<close> encoder is a parameter.
  \<^item> \<open>Collectibles\<close>: the \<open>reduce\<close> that groups the collectibles grid on
    JavaScript arrays with holes (\<open>js_set\<close> of \<open>Prelude\<close>: assigning past
    the end extends the array with holes), the render that skips holes, and a
    reference grouping.
  \<^item> \<open>AddressInput\<close>: the controlled input (derived state, \<open>_updateValue\<close>,
    the placeholder default, focus on mount, the rendered element).
  \<^item> \<open>OrderHistory\<close>: the stub table and the labels of \<open>orderToRow\<close>.
  \<^item> \<open>AppShell\<close>: the single exact route of \<open>SteadyApp\<close> and the containers
    \<open>Exchange\<close> places; \<open>react-router\<close>'s matching is a parameter.
  \<^item> \<open>ExchangePage\<close>: the exchange page as one system (store slice, token
    selector, panel) driven by every event its code can produce, with its
    reachable states, which project onto those of the selector and the panel,
    and the commutation of an address fetch with a selection.
  \<^item> This theory: properties spanning components.

  \<^bold>\<open>What the lemmas show.\<close> The registry constructor establishes an
  invariant and throws exactly without WETH data; lookups by symbol and
  address are characterised on every branch, errors included; the singleton
  ignores later configurations; on a registry the constructor builds the
  address lookup cannot reach its \<open>TypeError\<close>. \<open>signMessage\<close> never
  rejects and resolves to \<open>''\<close> only when the wallet returns a promise. A fill
  event is valid exactly when both legs decode to a listed address (up to
  case) or to the WETH address as configured. No projected token is shown
  with display precision 0: a configured 0 becomes the default. The store's initial state and its reducer
  are characterised (the latter as a refinement of a register
  specification). The dropdown's reachable states keep ref and listener in
  step, only the header opens it, outside and body clicks obey one shared
  flag. Every reachable selector state selects a registry token, and from
  every reachable mounted state any registry token can be selected within
  three events (liveness); a row click dispatches exactly one selection and
  closes the dropdown. The panel sends a transfer exactly under its guards and
  never with a rejected address; its address loop equals a last-match
  reference; no reachable panel state shows an error, since no handler sets
  one; exactly one of the two tabs draws the line between them; of the
  panel's dispatch props only \<open>onChangeAddresses\<close> writes addresses. The hex loop terminates after one iteration per byte, and the encoder
  round-trips and has exact length; the grid grouping equals the reference
  pairing, and for every positive group size the grouped array has its
  declared type \<open>any[][]\<close> (no holes, \<open>ceil (n / groupSize)\<close> entries). On the
  exchange page the store only ever holds \<open>null\<close> or \<open>[]\<close> as addresses, so
  the deposit address is never displayed (the situation of
  \<open>render_deposit_known_address\<close> does not arise there), and an address fetch
  commutes with a selection. Across components: typed addresses reach the rendered input, a
  withdrawal is validated against the token just selected, and the withdraw
  tab throws for a steady coin the trading configuration lacks.

  \<^bold>\<open>Bounds and fuel.\<close> No loop of the code can run unboundedly: the
  array callbacks are structural recursions over lists (\<open>fun\<close>, \<open>foldl\<close>),
  \<open>toString16\<close> is a \<open>function\<close> whose termination is proved with the measure
  \<open>n\<close>, and the \<open>for\<close> loop of \<open>utf8ToHex\<close> is a \<open>while_option\<close> whose
  result is proved to be \<open>Some\<close> (the measure is \<open>length str - i\<close>); no fuel
  is needed. Bytes are \<open>8 word\<close>, so the two-digit bound of the hex encoder
  follows from the type. Liveness is bounded explicitly: three events.

  \<^bold>\<open>Not modelled.\<close> Static styled-components rules (only the rules that
  depend on props or state are modelled, with theme values as names) and JSX
  layout beyond the values a render shows: the remaining unmapped lines of
  \<open>src/\<close> are imports, type-only interfaces, loggers, static CSS of styled
  components, and the \<open>connect\<close> calls; the dispatch props of the panel
  are modelled, but no event of the page calls them (every call site in
  \<open>submit\<close> is commented out); the thunks they dispatch outside the steady
  slice (\<open>store/actions\<close>, not among the sources); the amount and price
  formatting of \<open>orderToRow\<close> (library calls whose results the row never
  uses), and the table's \<open>mapStateToProps\<close>, made of out-of-tree selectors; the libraries the code
  calls (0x order utils, WAValidator, utf8, react-router matching, QR and
  clipboard widgets), which are parameters;
  JavaScript numbers that are not integers (NaN, fractions): the
  configured \<open>displayDecimals\<close> is an \<open>int\<close>, negatives included;
  asynchronous interleaving of promises, since every thunk's outcome is taken
  as a parameter of its run and React batches the \<open>setState\<close> calls of one
  event.
\<close>

section \<open>Properties across components\<close>

text \<open>
  (C38) Typing into the panel's address field: the input hands the typed
  text to \<open>updateAddress\<close>, the panel stores it, and the withdraw form the
  panel renders next passes it to the \<open>AddressInput\<close>, which shows exactly
  that text.
\<close>

theorem address_field_roundtrip:
  assumes "tab s = Withdraw" and "dw_currentToken p = Some t"
    and "getTokenBySymbol trading (symbol t) = Inr tt"
  shows "\<exists>v i. render disp trading p (updateAddress (fst (updateValue x st)) s) = Inr (Some v)
              \<and> v_input v = Some i
              \<and> el_value (addressInput_render (in_addressInput i) (snd (updateValue x st))) = x"
  using assms
  by (simp add: render_def Let_def getButtonContent_def getInputContent_def updateAddress_def
      updateValue_onChange addressInput_render_controlled)

theorem address_field_roundtrip_witness:
  "\<exists>v i. render toUpperCase sample_trading_registry sample_panel_props
            (updateAddress (fst (updateValue ''3QFwygJ5eo'' \<lparr>currentValueStr = []\<rparr>)) sample_withdraw_state)
            = Inr (Some v)
         \<and> v_input v = Some i
         \<and> el_value (addressInput_render (in_addressInput i) (snd (updateValue ''3QFwygJ5eo'' \<lparr>currentValueStr = []\<rparr>)))
            = ''3QFwygJ5eo''"
proof -
  have "tab sample_withdraw_state = Withdraw" "dw_currentToken sample_panel_props = Some btc_token"
    by (simp_all add: sample_panel_defs)
  moreover have "getTokenBySymbol sample_trading_registry (symbol btc_token) = Inr btc_token"
    by (simp add: getTokenBySymbol_def sample_panel_defs js_simps)
  ultimately show ?thesis by (rule address_field_roundtrip)
qed

text \<open>
  (C39) After a row click in the selector, a withdrawal entered in the panel
  is validated against the coin just selected: \<open>submit\<close> on the store's new
  state sends the transfer exactly when the validator accepts the address
  for that token's upper-case symbol.
\<close>

theorem withdraw_uses_selected_token:
  assumes "wrapperRef (app_dropdown a)" and "isOpen (app_dropdown a)"
    and "i < length (tokens (app_tokenDropdown a))"
    and "tab s = Withdraw" and "withdrawAmount s = Some amt" and "dw_address s = Some addr" and "addr \<noteq> []"
  shows "tr_effects (submit k validate True (mapStateToProps w (app_store (snd (row_click p init i a)))) s)
         = (if validate addr (toUpperCase (symbol (tokens (app_tokenDropdown a) ! i)))
            then [ContractSend (ERC_777_ADDRESS k) (WITHDRAW_ADDRESS k) amt addr] else [])"
  using assms
  by (simp add: row_click_fires mapStateToProps_def submit_def withdraw_def)

theorem withdraw_uses_selected_token_witness:
  "tr_effects (submit sample_constants sample_validator True
      (mapStateToProps Done (app_store (snd (row_click default_dropdownProps
         (initialSteadyState sample_steady_registry) 1 sample_app_open)))) sample_withdraw_state)
   = [ContractSend ''0xe777'' ''0x5a7e'' 0 ''0xdB25001A52E2F44E87F21dfb7FdA4656B84843a6'']"
proof -
  have "wrapperRef (app_dropdown sample_app_open)" "isOpen (app_dropdown sample_app_open)"
    "1 < length (tokens (app_tokenDropdown sample_app_open))"
    by (simp_all add: sample_app_open_defs)
  moreover have "tab sample_withdraw_state = Withdraw"
    "withdrawAmount sample_withdraw_state = Some 0"
    "dw_address sample_withdraw_state = Some ''0xdB25001A52E2F44E87F21dfb7FdA4656B84843a6''"
    by (simp_all add: sample_withdraw_state_def depositWithdraw_initial_def)
  ultimately show ?thesis
    using withdraw_uses_selected_token [of sample_app_open 1 sample_withdraw_state 0
        "''0xdB25001A52E2F44E87F21dfb7FdA4656B84843a6''" sample_constants sample_validator Done
        default_dropdownProps "initialSteadyState sample_steady_registry"]
    by (simp add: sample_app_open_defs sample_validator_def sample_constants_def usdt_token_def
        token_of_data_def usdt_data_def js_simps)
qed

text \<open>
  (C40) The panel's withdraw tab crashes for a steady coin that the trading
  configuration lacks: with the trading registry built from a configuration
  without the selected token's symbol (and the symbol not WETH), rendering
  the withdraw tab throws "Token with symbol ... not found".
\<close>

theorem withdraw_tab_crash_unknown_coin:
  assumes "new_KnownTokens k tradingData False = Inr trading"
    and "\<forall>d \<in> set tradingData. d_symbol d \<noteq> toLowerCase (symbol t)"
    and "toLowerCase (symbol t) \<noteq> ''weth''"
    and "currentToken st = Some t" and "tab s = Withdraw"
  shows "render disp trading (mapStateToProps w st) s = Inl (TokenSymbolNotFound (symbol t))"
proof -
  have toks: "kt_tokens trading = filter (\<lambda>u. \<not> isWeth (symbol u)) (mapTokensMetaDataToTokenByNetworkId k tradingData)"
    using new_KnownTokens_trading_Inr [OF assms(1)] by simp
  have "find (\<lambda>u. symbol u = toLowerCase (symbol t)) (kt_tokens trading) = None"
    using assms(2) by (auto simp: toks find_None_iff set_mapTokensMetaData)
  with assms(3) have "getTokenBySymbol trading (symbol t) = Inl (TokenSymbolNotFound (symbol t))"
    by (simp add: getTokenBySymbol_def)
  with assms(4,5) show ?thesis by (simp add: render_def mapStateToProps_def Let_def)
qed

theorem withdraw_tab_crash_unknown_coin_witness:
  "new_KnownTokens sample_constants [usdt_data, weth_data] False
     = Inr \<lparr>kt_tokens = [usdt_token], kt_steadyTokens = [], kt_wethToken = weth_token\<rparr>
   \<and> render toUpperCase \<lparr>kt_tokens = [usdt_token], kt_steadyTokens = [], kt_wethToken = weth_token\<rparr>
       (mapStateToProps Done (initialSteadyState sample_steady_registry)) sample_withdraw_state
     = Inl (TokenSymbolNotFound ''btc'')"
proof -
  have b: "new_KnownTokens sample_constants [usdt_data, weth_data] False
             = Inr \<lparr>kt_tokens = [usdt_token], kt_steadyTokens = [], kt_wethToken = weth_token\<rparr>"
    by (simp add: new_KnownTokens_def getWethTokenFromTokensMetaDataByNetworkId_def
        mapTokensMetaDataToTokenByNetworkId_def isWeth_def sample_data_defs sample_token_defs js_simps)
  have c: "currentToken (initialSteadyState sample_steady_registry) = Some btc_token"
    by (simp add: initialSteadyState_def getSteadyDefaultToken_def sample_steady_registry_def)
  have "\<forall>d \<in> set [usdt_data, weth_data]. d_symbol d \<noteq> toLowerCase (symbol btc_token)"
    "toLowerCase (symbol btc_token) \<noteq> ''weth''" "tab sample_withdraw_state = Withdraw"
    by (simp_all add: sample_data_defs sample_token_defs sample_withdraw_state_def js_simps)
  from withdraw_tab_crash_unknown_coin [OF b this(1,2) c this(3), of toUpperCase Done] b
  show ?thesis by (simp add: btc_token_def token_of_data_def btc_data_def)
qed

end
